theory Spec2Isabelle
  imports Complex_Main "HOL-Library.Log_Nat"
begin

section \<open>JavaScript values\<close>

text \<open>
  The program is browser JavaScript. A JavaScript number is a double (IEEE 754 binary64).
  A finite double is a rational, and the model keeps a number as an exact rational
  (\<^typ>\<open>rat\<close>); NaN and the infinities have no counterpart here. The quotient and the
  product of the two percentage computations are rounded to the nearest double, as the
  browser rounds them (\<open>round64\<close> below). A result of magnitude \<open>2^1024\<close> or more is
  \<open>Infinity\<close> in the browser and a large rational here; \<open>Math.min(100, ...)\<close> takes both
  to 100, so the percentage of \<open>saveActivity\<close> is the browser's unless the score is
  negative and the quotient overflows. The result of a division by zero is outside the
  model.

  A JavaScript object (a row sent to the hosted store, a result returned to the caller)
  is an association list from member names to values, in the order the source writes
  the members.
\<close>

datatype jsval =
    JUndefined
  | JNull
  | JBool bool
  | JNum rat
  | JStr string
  | JObj "(string \<times> jsval) list"
  | JArr "jsval list"

type_synonym obj = "(string \<times> jsval) list"

text \<open>\<open>o.k\<close>: the member \<open>k\<close> of the object \<open>o\<close>, \<open>undefined\<close> when there is none.\<close>

definition member :: "obj \<Rightarrow> string \<Rightarrow> jsval" where
  "member ob k = (case map_of ob k of None \<Rightarrow> JUndefined | Some v \<Rightarrow> v)"

text \<open>\<open>k in o\<close>: the object has a member of that name.\<close>

definition has_member :: "obj \<Rightarrow> string \<Rightarrow> bool" where
  "has_member ob k = (k \<in> set (map fst ob))"

text \<open>
  \<open>{...a, ...b}\<close>: the members of \<open>a\<close> in their order, each overwritten by the member
  of \<open>b\<close> of the same name, then the members of \<open>b\<close> that \<open>a\<close> has not.
\<close>

definition spread :: "obj \<Rightarrow> obj \<Rightarrow> obj" where
  "spread a b =
     map (\<lambda>(k, v). (k, case map_of b k of None \<Rightarrow> v | Some v' \<Rightarrow> v')) a
     @ filter (\<lambda>(k, v). k \<notin> set (map fst a)) b"

text \<open>
  \<open>Math.round\<close>: the nearest integer, a tie going up (\<open>Math.round(2.5) = 3\<close>,
  \<open>Math.round(-2.5) = -2\<close>).
\<close>

definition Math_round :: "rat \<Rightarrow> int" where
  "Math_round x = \<lfloor>x + 1 / 2\<rfloor>"

text \<open>
  The arithmetic of doubles. \<open>floorlog2 x\<close> is the integer \<open>l\<close> with
  \<open>2^l \<le> x < 2^(l+1)\<close>, for \<open>x > 0\<close>: the bit lengths of the numerator and the
  denominator give it up to one. The doubles around \<open>x\<close> are the multiples of \<open>2^e\<close>,
  \<open>e = ulp_exponent x\<close>: 53 significant bits, and steps of \<open>2^-1074\<close> below
  \<open>2^-1022\<close>. \<open>round64 x\<close> is the double nearest to \<open>x\<close>, a tie going to the even
  multiple; \<open>a / b\<close> and \<open>a * b\<close> of the source are the exact results, rounded.
\<close>

definition floorlog2 :: "rat \<Rightarrow> int" where
  "floorlog2 x =
     (case quotient_of x of
        (a, b) \<Rightarrow> (let k = bitlen a - bitlen b in if 2 powi k \<le> x then k else k - 1))"

definition round_even :: "rat \<Rightarrow> int" where
  "round_even y =
     (let f = \<lfloor>y\<rfloor>; d = y - of_int f
      in if d < 1 / 2 then f else if 1 / 2 < d then f + 1 else if even f then f else f + 1)"

definition ulp_exponent :: "rat \<Rightarrow> int" where
  "ulp_exponent x = max (- 1074) (floorlog2 \<bar>x\<bar> - 52)"

definition round64 :: "rat \<Rightarrow> rat" where
  "round64 x =
     (if x = 0 then 0
      else sgn x * (of_int (round_even (\<bar>x\<bar> / 2 powi ulp_exponent x)) * 2 powi ulp_exponent x))"

definition divide64 :: "rat \<Rightarrow> rat \<Rightarrow> rat" where
  "divide64 a b = round64 (a / b)"

definition times64 :: "rat \<Rightarrow> rat \<Rightarrow> rat" where
  "times64 a b = round64 (a * b)"

text \<open>\<open>a || b\<close> on numbers, the left operand possibly \<open>undefined\<close>: zero is falsy.\<close>

definition or_num :: "rat option \<Rightarrow> rat \<Rightarrow> rat" where
  "or_num a b = (case a of None \<Rightarrow> b | Some x \<Rightarrow> if x = 0 then b else x)"

text \<open>\<open>a || b\<close> on strings, the left operand possibly \<open>undefined\<close>: the empty string is falsy.\<close>

definition or_str :: "string option \<Rightarrow> string \<Rightarrow> string" where
  "or_str a b = (case a of None \<Rightarrow> b | Some s \<Rightarrow> if s = [] then b else s)"

text \<open>The string of a member that is present; used only past a check that it is.\<close>

definition present :: "string option \<Rightarrow> string" where
  "present s = (case s of None \<Rightarrow> [] | Some t \<Rightarrow> t)"

text \<open>\<open>!s\<close> for a string that may be \<open>undefined\<close>.\<close>

definition falsy_str :: "string option \<Rightarrow> bool" where
  "falsy_str s = (case s of None \<Rightarrow> True | Some t \<Rightarrow> t = [])"

section \<open>The modules path: points\<close>


section \<open>The hosted store and the page\<close>

text \<open>
  Every read and write goes to a hosted relational store through its client library
  (\<open>CognoSupabase.client.from(table)\<close>), which is not part of the repository. Its model
  is the documented behaviour of the four calls the program makes. A call resolves to
  \<open>{data, error}\<close> (an error reply carries \<open>data = null\<close>) or rejects; which of the
  three happens to a request is the environment's choice, \<open>outcome_of\<close>. The column
  list of a \<open>select\<close> is not modelled: a row is returned whole, and the source reads
  only the columns it selected.
\<close>

type_synonym filters = "(string \<times> jsval) list"

datatype request =
    Select string filters
  | SelectSingle string filters
  | Insert string obj
  | Upsert string obj "string list"

datatype outcome = Answers | ErrorResult string | Throws string

text \<open>The reply to a request: \<open>{data, error}\<close>, or a rejected promise.\<close>

datatype 'a reply = Reply 'a "string option" | Rejected string

text \<open>What \<open>supabaseClient.auth.getUser()\<close> resolves to: the id and e-mail of the
  signed-in user, no user, or an error.\<close>

datatype auth_reply = SignedIn string string | SignedOut | AuthFailed string

text \<open>\<open>CognoTracker.user\<close>, as \<open>CognoTracker.getCurrentUser\<close> builds it.\<close>

record tracker_user =
  u_id :: string
  u_email :: string
  u_name :: string
  u_role :: string
  u_avatarUrl :: jsval

text \<open>
  The state the functions act on: the tables of the store, the requests sent to it so far,
  the toasts shown on the page and the achievement e-mails handed to the REST client, the
  tracker's cached identity; and, never changed by the program, the environment: the
  answers of the store and of the identity provider, whether the globals
  \<open>CognoSupabase\<close> and \<open>CognoAPI.Email\<close> exist, the clock
  (\<open>new Date().toISOString()\<close>) and \<open>navigator.userAgent\<close>. The clock and the
  answers are those of one call of the program: within the call every reading of the
  clock gives the same time, and the answer to a request depends on the request alone.
\<close>

record world =
  tables :: "string \<Rightarrow> obj list"
  requests :: "request list"
  toasts :: "(string \<times> string) list"
  emails :: "(string \<times> string \<times> string \<times> string) list"
  tracker :: "tracker_user option"
  outcome_of :: "request \<Rightarrow> outcome"
  auth :: auth_reply
  supabase_loaded :: bool
  email_api :: bool
  clock :: string
  user_agent :: string

text \<open>\<open>.eq(column, v)\<close>, for each pair of the filter list.\<close>

definition matches :: "filters \<Rightarrow> obj \<Rightarrow> bool" where
  "matches fs r = list_all (\<lambda>(c, v). member r c = v) fs"

definition sent :: "request \<Rightarrow> world \<Rightarrow> world" where
  "sent rq w = w\<lparr>requests := requests w @ [rq]\<rparr>"

text \<open>\<open>from(t).select(cols).eq(...)\<close>: the rows that match.\<close>

definition gw_select :: "string \<Rightarrow> filters \<Rightarrow> world \<Rightarrow> obj list option reply \<times> world" where
  "gw_select t fs w =
     (case outcome_of w (Select t fs) of
        Answers \<Rightarrow> (Reply (Some (filter (matches fs) (tables w t))) None, sent (Select t fs) w)
      | ErrorResult e \<Rightarrow> (Reply None (Some e), sent (Select t fs) w)
      | Throws e \<Rightarrow> (Rejected e, sent (Select t fs) w))"

text \<open>
  \<open>from(t).select(cols).eq(...).single()\<close>: the row when exactly one row matches;
  with no row or several the library answers \<open>data = null\<close> and an error.
\<close>

definition single_row :: "obj list \<Rightarrow> obj option reply" where
  "single_row rs =
     (case rs of
        [r] \<Rightarrow> Reply (Some r) None
      | _ \<Rightarrow> Reply None (Some ''JSON object requested, multiple (or no) rows returned''))"

definition gw_select_single :: "string \<Rightarrow> filters \<Rightarrow> world \<Rightarrow> obj option reply \<times> world" where
  "gw_select_single t fs w =
     (case outcome_of w (SelectSingle t fs) of
        Answers \<Rightarrow> (single_row (filter (matches fs) (tables w t)), sent (SelectSingle t fs) w)
      | ErrorResult e \<Rightarrow> (Reply None (Some e), sent (SelectSingle t fs) w)
      | Throws e \<Rightarrow> (Rejected e, sent (SelectSingle t fs) w))"

text \<open>\<open>from(t).insert(row)\<close>: the row is appended; a failed insert leaves the table alone.\<close>

definition gw_insert :: "string \<Rightarrow> obj \<Rightarrow> world \<Rightarrow> obj list option reply \<times> world" where
  "gw_insert t r w =
     (case outcome_of w (Insert t r) of
        Answers \<Rightarrow>
          (Reply (Some [r]) None, sent (Insert t r) (w\<lparr>tables := (tables w)(t := tables w t @ [r])\<rparr>))
      | ErrorResult e \<Rightarrow> (Reply None (Some e), sent (Insert t r) w)
      | Throws e \<Rightarrow> (Rejected e, sent (Insert t r) w))"

text \<open>
  \<open>from(t).upsert(row, {onConflict: cols}).select()\<close>: a stored row that agrees with
  \<open>row\<close> on the conflict columns takes the columns of \<open>row\<close> and keeps its others; with
  no such row, \<open>row\<close> is appended.
\<close>

definition same_key :: "string list \<Rightarrow> obj \<Rightarrow> obj \<Rightarrow> bool" where
  "same_key cols r r' = list_all (\<lambda>c. member r c = member r' c) cols"

definition upsert_rows :: "string list \<Rightarrow> obj \<Rightarrow> obj list \<Rightarrow> obj list" where
  "upsert_rows cols r rs =
     (if list_ex (same_key cols r) rs
      then map (\<lambda>r'. if same_key cols r r' then spread r' r else r') rs
      else rs @ [r])"

definition gw_upsert :: "string \<Rightarrow> obj \<Rightarrow> string list \<Rightarrow> world \<Rightarrow> obj list option reply \<times> world" where
  "gw_upsert t r cols w =
     (case outcome_of w (Upsert t r cols) of
        Answers \<Rightarrow>
          (Reply (Some (filter (same_key cols r) (upsert_rows cols r (tables w t)))) None,
           sent (Upsert t r cols) (w\<lparr>tables := (tables w)(t := upsert_rows cols r (tables w t))\<rparr>))
      | ErrorResult e \<Rightarrow> (Reply None (Some e), sent (Upsert t r cols) w)
      | Throws e \<Rightarrow> (Rejected e, sent (Upsert t r cols) w))"

text \<open>\<open>showToast(message, type)\<close> and \<open>CognoNotifications.toast[type](message)\<close>: a
  toast of that type and text appears on the page.\<close>

definition showToast :: "string \<Rightarrow> string \<Rightarrow> world \<Rightarrow> world" where
  "showToast message type w = w\<lparr>toasts := toasts w @ [(type, message)]\<rparr>"

section \<open>The tracker path: \<open>CognoTracker\<close>\<close>

subsection \<open>Texts\<close>

text \<open>
  A character beyond ASCII is its UTF-8 bytes. \<open>show_int\<close> is the decimal text a template
  literal gives an integer.
\<close>

definition glowing_star :: string where
  "glowing_star = [CHR 0xF0, CHR 0x9F, CHR 0x8C, CHR 0x9F]"

definition trophy :: string where
  "trophy = [CHR 0xF0, CHR 0x9F, CHR 0x8F, CHR 0x86]"

definition crown :: string where
  "crown = [CHR 0xF0, CHR 0x9F, CHR 0x91, CHR 0x91]"

definition party_popper :: string where
  "party_popper = [CHR 0xF0, CHR 0x9F, CHR 0x8E, CHR 0x89]"

definition thumbs_up :: string where
  "thumbs_up = [CHR 0xF0, CHR 0x9F, CHR 0x91, CHR 0x8D]"

definition check_mark :: string where
  "check_mark = [CHR 0xE2, CHR 0x9C, CHR 0x85]"

definition digit :: "nat \<Rightarrow> char" where
  "digit d = char_of (48 + d)"

fun show_nat :: "nat \<Rightarrow> string" where
  "show_nat n = (if n < 10 then [digit n] else show_nat (n div 10) @ [digit (n mod 10)])"

declare show_nat.simps [simp del]

definition show_int :: "int \<Rightarrow> string" where
  "show_int k = (if k < 0 then CHR ''-'' # show_nat (nat (- k)) else show_nat (nat k))"

subsection \<open>\<open>CognoTracker.config\<close> and \<open>CognoTracker.modules\<close>\<close>

definition notifyDoctorThreshold :: int where
  "notifyDoctorThreshold = 80"

definition celebrateThreshold :: int where
  "celebrateThreshold = 90"

definition minDurationSeconds :: int where
  "minDurationSeconds = 5"

record activity_info =
  info_name :: string
  info_maxScore :: rat

record module_info =
  m_name :: string
  m_icon :: string
  m_color :: string
  m_activities :: "(string \<times> activity_info) list"

definition entry :: "string \<Rightarrow> string \<Rightarrow> rat \<Rightarrow> string \<times> activity_info" where
  "entry i n m = (i, \<lparr>info_name = n, info_maxScore = m\<rparr>)"

definition modules :: "(string \<times> module_info) list" where
  "modules =
    [(''dyslexia'',
      \<lparr>m_name = ''Dyslexia'', m_icon = ''fa-book-reader'', m_color = ''#0066cc'',
       m_activities =
        [entry ''text-reader'' ''Text Reader'' 100,
         entry ''text-simplifier'' ''Text Simplifier'' 100,
         entry ''letter-match'' ''Letter Match'' 130,
         entry ''word-builder'' ''Word Builder'' 100,
         entry ''sight-words'' ''Sight Words'' 100,
         entry ''rhyme-time'' ''Rhyme Time'' 100,
         entry ''spelling-bee'' ''Spelling Bee'' 100,
         entry ''word-scramble'' ''Word Scramble'' 100]\<rparr>),
     (''dyscalculia'',
      \<lparr>m_name = ''Dyscalculia'', m_icon = ''fa-calculator'', m_color = ''#10b981'',
       m_activities =
        [entry ''number-line'' ''Number Line'' 100,
         entry ''counting'' ''Counting'' 100,
         entry ''number-match'' ''Number Match'' 100,
         entry ''addition'' ''Addition'' 100,
         entry ''subtraction'' ''Subtraction'' 100,
         entry ''multiplication'' ''Multiplication'' 100,
         entry ''division'' ''Division'' 100,
         entry ''math-pop'' ''Math Pop'' 100,
         entry ''number-puzzle'' ''Number Puzzle'' 100]\<rparr>),
     (''dysgraphia'',
      \<lparr>m_name = ''Dysgraphia'', m_icon = ''fa-pen-fancy'', m_color = ''#f59e0b'',
       m_activities =
        [entry ''letter-tracing'' ''Letter Tracing'' 100,
         entry ''letter-formation'' ''Letter Formation'' 100,
         entry ''alphabet-practice'' ''Alphabet Practice'' 100,
         entry ''word-tracing'' ''Word Tracing'' 100,
         entry ''spelling-write'' ''Spelling Write'' 100,
         entry ''copy-practice'' ''Copy Practice'' 100,
         entry ''free-draw'' ''Free Draw'' 100,
         entry ''shape-tracing'' ''Shape Tracing'' 100,
         entry ''sentence-write'' ''Sentence Write'' 100]\<rparr>),
     (''dyspraxia'',
      \<lparr>m_name = ''Dyspraxia'', m_icon = ''fa-hand-paper'', m_color = ''#8b5cf6'',
       m_activities =
        [entry ''balloon-pop'' ''Balloon Pop'' 100,
         entry ''catch-stars'' ''Catch Stars'' 100,
         entry ''mirror-me'' ''Mirror Me'' 100,
         entry ''freeze-dance'' ''Freeze Dance'' 100,
         entry ''tightrope-walk'' ''Tightrope Walk'' 100,
         entry ''obstacle-course'' ''Obstacle Course'' 100,
         entry ''finger-tap'' ''Finger Tap'' 100,
         entry ''drag-drop'' ''Drag & Drop'' 100,
         entry ''track-path'' ''Track Path'' 100]\<rparr>)]"

text \<open>
  \<open>const moduleInfo = this.modules[moduleId];\<close> and
  \<open>const activityInfo = moduleInfo?.activities?.[activityId];\<close>, as \<open>saveActivity\<close>,
  \<open>logActivityHistory\<close>, \<open>notifyDoctor\<close> and \<open>showSuccessFeedback\<close> open. Members an
  object inherits from \<open>Object.prototype\<close> are not followed.
\<close>

definition moduleInfo :: "string \<Rightarrow> module_info option" where
  "moduleInfo moduleId = map_of modules moduleId"

definition activityInfo :: "string \<Rightarrow> string \<Rightarrow> activity_info option" where
  "activityInfo moduleId activityId =
     (case moduleInfo moduleId of None \<Rightarrow> None | Some mi \<Rightarrow> map_of (m_activities mi) activityId)"

text \<open>\<open>${moduleInfo?.name}\<close> in a template literal: \<open>undefined\<close> prints as the word.\<close>

definition module_name_text :: "string \<Rightarrow> string" where
  "module_name_text moduleId =
     (case moduleInfo moduleId of None \<Rightarrow> ''undefined'' | Some mi \<Rightarrow> m_name mi)"

text \<open>\<open>activityInfo?.name || fallback\<close>.\<close>

definition activity_name_or :: "string \<Rightarrow> string \<Rightarrow> string \<Rightarrow> string" where
  "activity_name_or moduleId activityId fallback =
     or_str (map_option info_name (activityInfo moduleId activityId)) fallback"

subsection \<open>The argument of \<open>saveActivity\<close>\<close>

text \<open>
  The object a game passes: \<open>moduleId\<close> and \<open>activityId\<close> (strings, possibly absent or
  empty), \<open>score\<close> (a number), and the optional \<open>maxScore\<close>, \<open>duration\<close>,
  \<open>accuracy\<close> (numbers) and \<open>metadata\<close> (an object). The field \<open>act_x\<close> is the
  member \<open>activity.x\<close>.
\<close>

record activity =
  act_moduleId :: "string option"
  act_activityId :: "string option"
  act_score :: rat
  act_maxScore :: "rat option"
  act_duration :: "rat option"
  act_accuracy :: "rat option"
  act_metadata :: "obj option"

subsection \<open>Identity\<close>

text \<open>
  \<open>CognoSupabase.getCurrentUser\<close> of the client wrapper: the signed-in user with the profile
  row, \<open>{success: true, user: null}\<close> for nobody, \<open>{success: false, error}\<close> when the
  identity provider or the profile query fails by an exception. Of the user object the
  members \<open>id\<close> and \<open>email\<close> are kept.
\<close>

definition wrapper_getCurrentUser :: "world \<Rightarrow> obj \<times> world" where
  "wrapper_getCurrentUser w =
     (case auth w of
        AuthFailed e \<Rightarrow> ([(''success'', JBool False), (''error'', JStr e)], w)
      | SignedOut \<Rightarrow> ([(''success'', JBool True), (''user'', JNull)], w)
      | SignedIn uid email \<Rightarrow>
          (case gw_select_single ''profiles'' [(''id'', JStr uid)] w of
             (Rejected e, w') \<Rightarrow> ([(''success'', JBool False), (''error'', JStr e)], w')
           | (Reply profile err, w') \<Rightarrow>
               ([(''success'', JBool True),
                 (''user'', JObj [(''id'', JStr uid), (''email'', JStr email),
                                  (''profile'', case profile of None \<Rightarrow> JNull | Some pr \<Rightarrow> JObj pr)])],
                w')))"

text \<open>
  \<open>CognoTracker.getCurrentUser\<close>. It destructures \<open>{user, profile}\<close> from the wrapper's
  result, which has no member \<open>profile\<close>: \<open>profile\<close> is \<open>undefined\<close>, so the name is
  \<open>user.email.split('@')[0]\<close>, the role \<open>'student'\<close> and the avatar \<open>undefined\<close>.
\<close>

definition getCurrentUser :: "world \<Rightarrow> tracker_user option \<times> world" where
  "getCurrentUser w =
     (if \<not> supabase_loaded w then (None, w)
      else
        (case wrapper_getCurrentUser w of
           (res, w') \<Rightarrow>
             (case member res ''user'' of
                JObj user \<Rightarrow>
                  (case (member user ''id'', member user ''email'') of
                     (JStr uid, JStr email) \<Rightarrow>
                       (Some \<lparr>u_id = uid, u_email = email,
                              u_name = takeWhile (\<lambda>c. c \<noteq> CHR ''@'') email,
                              u_role = ''student'', u_avatarUrl = JUndefined\<rparr>, w')
                   | _ \<Rightarrow> (None, w'))
              | _ \<Rightarrow> (None, w'))))"

subsection \<open>Calls of the tracker\<close>

text \<open>
  A function of the program that may throw returns \<open>Inl\<close> of the exception's message or
  \<open>Inr\<close> of its result, with the world it leaves. \<open>x_try\<close> is the body of the
  \<open>try\<close> block of \<open>x\<close>; \<open>x\<close> adds the \<open>catch\<close>.

  The tracker reaches the store as \<open>CognoSupabase.client\<close>: a ReferenceError when the
  global does not exist.
\<close>

definition client :: "(world \<Rightarrow> 'a reply \<times> world) \<Rightarrow> world \<Rightarrow> 'a reply \<times> world" where
  "client call w =
     (if supabase_loaded w then call w else (Rejected ''CognoSupabase is not defined'', w))"

text \<open>
  \<open>CognoSupabase.logActivity(activityType, metadata)\<close> of the client wrapper: a row of
  \<open>activity_logs\<close> for the signed-in user; it catches whatever fails and answers
  \<open>{success, data | error}\<close>.
\<close>

definition wrapper_logActivity :: "jsval \<Rightarrow> jsval \<Rightarrow> world \<Rightarrow> obj \<times> world" where
  "wrapper_logActivity activityType meta w =
     (case auth w of
        SignedIn uid email \<Rightarrow>
          (case gw_insert ''activity_logs''
                  [(''user_id'', JStr uid), (''activity_type'', activityType), (''metadata'', meta),
                   (''ip_address'', JNull), (''user_agent'', JStr (user_agent w))] w of
             (Rejected e, w') \<Rightarrow> ([(''success'', JBool False), (''error'', JStr e)], w')
           | (Reply d (Some e), w') \<Rightarrow> ([(''success'', JBool False), (''error'', JStr e)], w')
           | (Reply d None, w') \<Rightarrow> ([(''success'', JBool True), (''data'', JNull)], w'))
      | _ \<Rightarrow> ([(''success'', JBool False), (''error'', JStr ''No user logged in'')], w))"

text \<open>\<open>x\<close> for a number that may be \<open>undefined\<close>.\<close>

definition num_or_undefined :: "rat option \<Rightarrow> jsval" where
  "num_or_undefined x = (case x of None \<Rightarrow> JUndefined | Some r \<Rightarrow> JNum r)"

text \<open>
  \<open>logActivityHistory(activity, percentage)\<close>. \<open>saveActivity\<close> calls it, and the three
  functions after it, past its check of \<open>moduleId\<close> and \<open>activityId\<close>: the two are passed
  as the strings they are.
\<close>

definition logActivityHistory :: "string \<Rightarrow> string \<Rightarrow> activity \<Rightarrow> int \<Rightarrow> world \<Rightarrow> (string + unit) \<times> world" where
  "logActivityHistory moduleId activityId a percentage w =
     (if \<not> supabase_loaded w then (Inr (), w)
      else
        (Inr (),
         snd (wrapper_logActivity (JStr ''activity_completed'')
                (JObj [(''module_type'', JStr moduleId),
                       (''module_name'',
                          case moduleInfo moduleId of None \<Rightarrow> JUndefined | Some mi \<Rightarrow> JStr (m_name mi)),
                       (''activity_id'', JStr activityId),
                       (''activity_name'', JStr (activity_name_or moduleId activityId activityId)),
                       (''score'', JNum (act_score a)),
                       (''percentage'', JNum (of_int percentage)),
                       (''duration'', num_or_undefined (act_duration a))]) w)))"

subsection \<open>The Achievement Evaluator: \<open>CognoTracker.checkAchievements\<close>\<close>

record achievement =
  ach_type :: string
  ach_id :: string
  ach_title :: string
  ach_description :: string
  ach_icon :: string

definition first_activity :: achievement where
  "first_activity =
     \<lparr>ach_type = ''milestone'', ach_id = ''first_activity'', ach_title = ''First Steps'',
      ach_description = ''Complete your first activity'', ach_icon = glowing_star\<rparr>"

definition perfect :: "string \<Rightarrow> achievement" where
  "perfect moduleId =
     \<lparr>ach_type = ''performance'', ach_id = ''perfect_'' @ moduleId, ach_title = ''Perfect Score!'',
      ach_description = ''Get 100% on a '' @ module_name_text moduleId @ '' activity'',
      ach_icon = trophy\<rparr>"

definition mastery :: "string \<Rightarrow> achievement" where
  "mastery moduleId =
     \<lparr>ach_type = ''mastery'', ach_id = ''mastery_'' @ moduleId,
      ach_title = module_name_text moduleId @ '' Master'',
      ach_description = ''Complete all '' @ module_name_text moduleId @ '' activities'',
      ach_icon = crown\<rparr>"

text \<open>The row \<open>checkAchievements\<close> inserts into \<open>user_achievements\<close>.\<close>

definition achievement_row :: "tracker_user \<Rightarrow> achievement \<Rightarrow> int \<Rightarrow> string \<Rightarrow> obj" where
  "achievement_row u a percentage now =
     [(''user_id'', JStr (u_id u)),
      (''achievement_type'', JStr (ach_type a)),
      (''achievement_id'', JStr (ach_id a)),
      (''title'', JStr (ach_title a)),
      (''description'', JStr (ach_description a)),
      (''icon'', JStr (ach_icon a)),
      (''xp_reward'', JNum (if 90 \<le> percentage then 50 else 25)),
      (''unlocked_at'', JStr now)]"

text \<open>\<open>showAchievementUnlocked(achievement)\<close>.\<close>

definition showAchievementUnlocked :: "achievement \<Rightarrow> world \<Rightarrow> world" where
  "showAchievementUnlocked a w =
     showToast (party_popper @ '' Achievement Unlocked: '' @ ach_title a @ ''!'') ''success'' w"

text \<open>
  After an insert without error: the toast, and
  \<open>CognoAPI.Email.sendAchievementNotification(name, email, title, description)\<close> when that
  global exists (its own failure is caught on its promise).
\<close>

definition unlocked :: "tracker_user \<Rightarrow> achievement \<Rightarrow> world \<Rightarrow> world" where
  "unlocked u a w =
     (let w' = showAchievementUnlocked a w
      in if email_api w'
         then w'\<lparr>emails := emails w' @ [(u_name u, u_email u, ach_title a, ach_description a)]\<rparr>
         else w')"

text \<open>
  The body of the loop \<open>for (const achievement of achievementsToCheck)\<close>: the existence
  check with \<open>.single()\<close>, and the insert when \<open>!existing\<close>.
\<close>

definition save_achievement :: "tracker_user \<Rightarrow> int \<Rightarrow> achievement \<Rightarrow> world \<Rightarrow> (string + unit) \<times> world" where
  "save_achievement u percentage a w =
     (case client (gw_select_single ''user_achievements''
                     [(''user_id'', JStr (u_id u)), (''achievement_id'', JStr (ach_id a))]) w of
        (Rejected e, w1) \<Rightarrow> (Inl e, w1)
      | (Reply (Some existing) err, w1) \<Rightarrow> (Inr (), w1)
      | (Reply None err, w1) \<Rightarrow>
          (case client (gw_insert ''user_achievements'' (achievement_row u a percentage (clock w1))) w1 of
             (Rejected e, w2) \<Rightarrow> (Inl e, w2)
           | (Reply d (Some e), w2) \<Rightarrow> (Inr (), w2)
           | (Reply d None, w2) \<Rightarrow> (Inr (), unlocked u a w2)))"

text \<open>The loop: an exception leaves it.\<close>

fun save_achievements :: "tracker_user \<Rightarrow> int \<Rightarrow> achievement list \<Rightarrow> world \<Rightarrow> (string + unit) \<times> world" where
  "save_achievements u percentage [] w = (Inr (), w)"
| "save_achievements u percentage (a # rest) w =
     (case save_achievement u percentage a w of
        (Inl e, w') \<Rightarrow> (Inl e, w')
      | (Inr x, w') \<Rightarrow> save_achievements u percentage rest w')"

text \<open>\<open>Object.keys(this.modules[moduleId]?.activities || {})\<close>.\<close>

definition moduleActivities :: "string \<Rightarrow> string list" where
  "moduleActivities moduleId =
     (case moduleInfo moduleId of None \<Rightarrow> [] | Some mi \<Rightarrow> map fst (m_activities mi))"

text \<open>
  \<open>achievementsToCheck\<close> as the three \<open>push\<close>es fill it, from the replies to the two
  queries: \<open>allProgress?.length === 1\<close>, \<open>percentage === 100\<close>, and every activity of the
  module among the completed ones.
\<close>

definition achievementsToCheck :: "string \<Rightarrow> int \<Rightarrow> obj list option \<Rightarrow> obj list option \<Rightarrow> achievement list" where
  "achievementsToCheck moduleId percentage allProgress moduleProgress =
     (let completedActivities =
            (case moduleProgress of
               None \<Rightarrow> []
             | Some rows \<Rightarrow> map (\<lambda>p. member p ''activity_id'') rows)
      in (if map_option length allProgress = Some 1 then [first_activity] else [])
         @ (if percentage = 100 then [perfect moduleId] else [])
         @ (if moduleActivities moduleId \<noteq> []
               \<and> list_all (\<lambda>a. JStr a \<in> set completedActivities) (moduleActivities moduleId)
            then [mastery moduleId] else []))"

definition checkAchievements_try :: "string \<Rightarrow> int \<Rightarrow> world \<Rightarrow> (string + unit) \<times> world" where
  "checkAchievements_try moduleId percentage w =
     (case tracker w of
        None \<Rightarrow> (Inr (), w)
      | Some u \<Rightarrow>
          (case client (gw_select ''student_progress'' [(''student_id'', JStr (u_id u))]) w of
             (Rejected e, w1) \<Rightarrow> (Inl e, w1)
           | (Reply allProgress err, w1) \<Rightarrow>
               (case client (gw_select ''student_progress''
                               [(''student_id'', JStr (u_id u)), (''module_type'', JStr moduleId),
                                (''completed'', JBool True)]) w1 of
                  (Rejected e, w2) \<Rightarrow> (Inl e, w2)
                | (Reply moduleProgress err', w2) \<Rightarrow>
                    save_achievements u percentage
                      (achievementsToCheck moduleId percentage allProgress moduleProgress) w2)))"

definition checkAchievements :: "string \<Rightarrow> int \<Rightarrow> world \<Rightarrow> (string + unit) \<times> world" where
  "checkAchievements moduleId percentage w =
     (case checkAchievements_try moduleId percentage w of
        (Inl e, w') \<Rightarrow> (Inr (), w')
      | (Inr x, w') \<Rightarrow> (Inr x, w'))"

subsection \<open>The Notification Fan-out: \<open>CognoTracker.notifyDoctor\<close>\<close>

text \<open>JavaScript truthiness, for \<open>!link?.doctor_id\<close>.\<close>

definition truthy :: "jsval \<Rightarrow> bool" where
  "truthy v =
     (case v of
        JUndefined \<Rightarrow> False
      | JNull \<Rightarrow> False
      | JBool b \<Rightarrow> b
      | JNum x \<Rightarrow> x \<noteq> 0
      | JStr t \<Rightarrow> t \<noteq> []
      | JObj ms \<Rightarrow> True
      | JArr vs \<Rightarrow> True)"

text \<open>The row \<open>notifyDoctor\<close> inserts into \<open>notifications\<close> for the doctor \<open>doctor_id\<close>.\<close>

definition notification :: "tracker_user \<Rightarrow> jsval \<Rightarrow> string \<Rightarrow> string \<Rightarrow> activity \<Rightarrow> int \<Rightarrow> string \<Rightarrow> obj" where
  "notification u doctor_id moduleId activityId a percentage now =
     [(''user_id'', doctor_id),
      (''title'', JStr (if 90 \<le> percentage then glowing_star @ '' Excellent Progress!''
                        else check_mark @ '' Activity Completed'')),
      (''message'', JStr (u_name u @ '' scored '' @ show_int percentage @ ''% on ''
                          @ activity_name_or moduleId activityId activityId
                          @ '' ('' @ module_name_text moduleId @ '')'')),
      (''type'', JStr (if 90 \<le> percentage then ''achievement'' else ''info'')),
      (''read'', JBool False),
      (''data'', JObj [(''patient_id'', JStr (u_id u)),
                       (''patient_name'', JStr (u_name u)),
                       (''module_id'', JStr moduleId),
                       (''activity_id'', JStr activityId),
                       (''score'', JNum (act_score a)),
                       (''percentage'', JNum (of_int percentage))]),
      (''created_at'', JStr now)]"

definition notifyDoctor_try :: "string \<Rightarrow> string \<Rightarrow> activity \<Rightarrow> int \<Rightarrow> world \<Rightarrow> (string + unit) \<times> world" where
  "notifyDoctor_try moduleId activityId a percentage w =
     (case tracker w of
        None \<Rightarrow> (Inr (), w)
      | Some u \<Rightarrow>
          (case client (gw_select_single ''doctor_patients''
                          [(''patient_id'', JStr (u_id u)), (''status'', JStr ''active'')]) w of
             (Rejected e, w1) \<Rightarrow> (Inl e, w1)
           | (Reply None err, w1) \<Rightarrow> (Inr (), w1)
           | (Reply (Some link) err, w1) \<Rightarrow>
               (if \<not> truthy (member link ''doctor_id'') then (Inr (), w1)
                else
                  (case client (gw_insert ''notifications''
                                  (notification u (member link ''doctor_id'') moduleId activityId a
                                     percentage (clock w1))) w1 of
                     (Rejected e, w2) \<Rightarrow> (Inl e, w2)
                   | (Reply d err', w2) \<Rightarrow> (Inr (), w2)))))"

definition notifyDoctor :: "string \<Rightarrow> string \<Rightarrow> activity \<Rightarrow> int \<Rightarrow> world \<Rightarrow> (string + unit) \<times> world" where
  "notifyDoctor moduleId activityId a percentage w =
     (case notifyDoctor_try moduleId activityId a percentage w of
        (Inl e, w') \<Rightarrow> (Inr (), w')
      | (Inr x, w') \<Rightarrow> (Inr x, w'))"

subsection \<open>The Activity Recorder: \<open>CognoTracker.saveActivity\<close>\<close>

text \<open>\<open>showLocalFeedback(activity, percentage)\<close> and \<open>showSuccessFeedback(activity, percentage)\<close>.\<close>

definition showLocalFeedback :: "world \<Rightarrow> world" where
  "showLocalFeedback w =
     showToast ''Score saved locally! Log in to track your progress.'' ''info'' w"

definition showSuccessFeedback :: "string \<Rightarrow> string \<Rightarrow> int \<Rightarrow> world \<Rightarrow> world" where
  "showSuccessFeedback moduleId activityId percentage w =
     (if 90 \<le> percentage then
        showToast (glowing_star @ '' Excellent! '' @ show_int percentage @ ''% on ''
                   @ activity_name_or moduleId activityId ''activity'' @ ''!'') ''success'' w
      else if 70 \<le> percentage then
        showToast (check_mark @ '' Great job! '' @ show_int percentage @ ''% on ''
                   @ activity_name_or moduleId activityId ''activity'' @ ''!'') ''success'' w
      else if 50 \<le> percentage then
        showToast (thumbs_up @ '' Good effort! '' @ show_int percentage @ ''% on ''
                   @ activity_name_or moduleId activityId ''activity'') ''success'' w
      else
        showToast (''Keep practicing! '' @ show_int percentage @ ''% - You'' @ [CHR 0x27]
                   @ ''ll improve!'') ''info'' w)"

text \<open>
  \<^verbatim>\<open>
    const maxScore = activity.maxScore || activityInfo?.maxScore || 100;
    const percentage = Math.min(100, Math.round((activity.score / maxScore) * 100));
    const accuracy = activity.accuracy ?? percentage;
  \<close>
\<close>

definition saveActivity_maxScore :: "string \<Rightarrow> string \<Rightarrow> activity \<Rightarrow> rat" where
  "saveActivity_maxScore moduleId activityId a =
     or_num (act_maxScore a)
       (or_num (map_option info_maxScore (activityInfo moduleId activityId)) 100)"

definition saveActivity_percentage :: "string \<Rightarrow> string \<Rightarrow> activity \<Rightarrow> int" where
  "saveActivity_percentage moduleId activityId a =
     min 100 (Math_round (times64 (divide64 (act_score a)
                                     (saveActivity_maxScore moduleId activityId a)) 100))"

definition saveActivity_accuracy :: "string \<Rightarrow> string \<Rightarrow> activity \<Rightarrow> rat" where
  "saveActivity_accuracy moduleId activityId a =
     (case act_accuracy a of
        None \<Rightarrow> of_int (saveActivity_percentage moduleId activityId a)
      | Some x \<Rightarrow> x)"

text \<open>The row for \<open>student_progress\<close>.\<close>

definition progressRecord :: "tracker_user \<Rightarrow> string \<Rightarrow> string \<Rightarrow> activity \<Rightarrow> string \<Rightarrow> obj" where
  "progressRecord u moduleId activityId a now =
     [(''student_id'', JStr (u_id u)),
      (''module_type'', JStr moduleId),
      (''activity_type'', JStr (activity_name_or moduleId activityId activityId)),
      (''activity_id'', JStr activityId),
      (''score'', JNum (act_score a)),
      (''max_score'', JNum (saveActivity_maxScore moduleId activityId a)),
      (''accuracy'', JNum (saveActivity_accuracy moduleId activityId a)),
      (''time_spent_seconds'', JNum (or_num (act_duration a) 0)),
      (''completed'', JBool (50 \<le> saveActivity_percentage moduleId activityId a)),
      (''attempts'', JNum 1),
      (''data'', JObj (spread [(''completion_percentage'',
                                JNum (of_int (saveActivity_percentage moduleId activityId a)))]
                         (case act_metadata a of None \<Rightarrow> [] | Some md \<Rightarrow> md))),
      (''updated_at'', JStr now)]"

text \<open>\<open>data\<close> of a reply as a JavaScript value: the array of rows, or \<open>null\<close>.\<close>

definition rows_value :: "obj list option \<Rightarrow> jsval" where
  "rows_value d = (case d of None \<Rightarrow> JNull | Some rows \<Rightarrow> JArr (map JObj rows))"

text \<open>
  \<open>saveActivity\<close> from the upsert on, for the identity \<open>u\<close> and the non-empty
  \<open>moduleId\<close> and \<open>activityId\<close>.
\<close>

definition saveActivity_record :: "tracker_user \<Rightarrow> string \<Rightarrow> string \<Rightarrow> activity \<Rightarrow> world \<Rightarrow> (string + obj) \<times> world" where
  "saveActivity_record u moduleId activityId a w =
     (let percentage = saveActivity_percentage moduleId activityId a
      in case client (gw_upsert ''student_progress'' (progressRecord u moduleId activityId a (clock w))
                        [''student_id'', ''module_type'', ''activity_id'']) w of
           (Rejected e, w1) \<Rightarrow> (Inl e, w1)
         | (Reply d (Some e), w1) \<Rightarrow>
             (Inr [(''success'', JBool False), (''error'', JStr e)], showLocalFeedback w1)
         | (Reply d None, w1) \<Rightarrow>
             (case logActivityHistory moduleId activityId a percentage w1 of
                (Inl e, w2) \<Rightarrow> (Inl e, w2)
              | (Inr x, w2) \<Rightarrow>
                  (case checkAchievements moduleId percentage w2 of
                     (Inl e, w3) \<Rightarrow> (Inl e, w3)
                   | (Inr y, w3) \<Rightarrow>
                       (case (if notifyDoctorThreshold \<le> percentage
                              then notifyDoctor moduleId activityId a percentage w3
                              else (Inr (), w3)) of
                          (Inl e, w4) \<Rightarrow> (Inl e, w4)
                        | (Inr z, w4) \<Rightarrow>
                            (Inr [(''success'', JBool True), (''data'', rows_value d),
                                  (''percentage'', JNum (of_int percentage))],
                             showSuccessFeedback moduleId activityId percentage w4)))))"

text \<open>
  \<open>if (!this.user) { this.user = await this.getCurrentUser(); }\<close>
\<close>

definition refresh_user :: "world \<Rightarrow> world" where
  "refresh_user w =
     (if tracker w = None
      then (case getCurrentUser w of (u, w') \<Rightarrow> w'\<lparr>tracker := u\<rparr>)
      else w)"

text \<open>The \<open>try\<close> block of \<open>saveActivity\<close>: the check of the required fields, the
  refresh of the identity, guest mode, and the recording.\<close>

definition saveActivity_try :: "activity \<Rightarrow> world \<Rightarrow> (string + obj) \<times> world" where
  "saveActivity_try a w =
     (if falsy_str (act_moduleId a) \<or> falsy_str (act_activityId a)
      then (Inr [(''success'', JBool False), (''error'', JStr ''Missing required fields'')], w)
      else
        (case tracker (refresh_user w) of
           None \<Rightarrow>
             (Inr [(''success'', JBool True), (''guest'', JBool True)],
              showLocalFeedback (refresh_user w))
         | Some u \<Rightarrow>
             saveActivity_record u (present (act_moduleId a)) (present (act_activityId a)) a
               (refresh_user w)))"

definition saveActivity :: "activity \<Rightarrow> world \<Rightarrow> (string + obj) \<times> world" where
  "saveActivity a w =
     (case saveActivity_try a w of
        (Inl e, w') \<Rightarrow> (Inr [(''success'', JBool False), (''error'', JStr e)], w')
      | (Inr res, w') \<Rightarrow> (Inr res, w'))"

section \<open>The modules path: \<open>CognoModules.completeActivity\<close>\<close>

text \<open>
  The page object of a module page: \<open>this.user\<close> (its id; \<open>None\<close> when no user is
  set), \<open>this.currentModule\<close> and \<open>this.activityProgress\<close>, the page's copy of the
  user's \<open>activity_progress\<close> rows by activity id, loaded with the page and renewed by
  change events; \<open>None\<close> before it is loaded.
\<close>

record modules_page =
  page_user :: "string option"
  currentModule :: jsval
  activityProgress :: "(string \<times> obj) list option"













section \<open>Realtime channels\<close>

text \<open>
  The realtime provider (\<open>window.CognoSupabase.client.channel(name)\<close>) is outside the
  repository. A channel object is known by its position in the list of the channels the
  provider has created; it has its name, the change filters attached with \<open>.on\<close> (the
  handler itself is not kept), and whether it is subscribed. \<open>unsubscribe\<close> on a channel
  that is not subscribed changes nothing.
\<close>

record channel =
  topic :: string
  bindings :: "(string \<times> string \<times> string option) list"
  subscribed :: bool

text \<open>
  \<open>registry\<close> is \<open>realtimeManager.channels\<close>, the \<open>Map\<close> from channel names to
  channel objects that \<open>unsubscribeAll\<close> sweeps on unload; \<open>manager_client\<close> is
  \<open>this.client\<close> as the manager's constructor found it, \<open>client_now\<close> is
  \<open>window.CognoSupabase?.client\<close> at the time of a call, \<open>now_ms\<close> is \<open>Date.now()\<close>.
\<close>

record realtime =
  provider :: "channel list"
  registry :: "(string \<times> nat) list"
  manager_client :: bool
  client_now :: bool
  now_ms :: nat

definition provider_channel :: "string \<Rightarrow> realtime \<Rightarrow> nat \<times> realtime" where
  "provider_channel name s =
     (length (provider s),
      s\<lparr>provider := provider s @ [\<lparr>topic = name, bindings = [], subscribed = False\<rparr>]\<rparr>)"

definition channel_on :: "nat \<Rightarrow> string \<times> string \<times> string option \<Rightarrow> realtime \<Rightarrow> realtime" where
  "channel_on h b s =
     (if h < length (provider s)
      then s\<lparr>provider := (provider s)[h := (provider s ! h)\<lparr>bindings := bindings (provider s ! h) @ [b]\<rparr>]\<rparr>
      else s)"

definition channel_subscribe :: "nat \<Rightarrow> realtime \<Rightarrow> realtime" where
  "channel_subscribe h s =
     (if h < length (provider s)
      then s\<lparr>provider := (provider s)[h := (provider s ! h)\<lparr>subscribed := True\<rparr>]\<rparr>
      else s)"

definition channel_unsubscribe :: "nat \<Rightarrow> realtime \<Rightarrow> realtime" where
  "channel_unsubscribe h s =
     (if h < length (provider s)
      then s\<lparr>provider := (provider s)[h := (provider s ! h)\<lparr>subscribed := False\<rparr>]\<rparr>
      else s)"

subsection \<open>\<open>RealtimeManager\<close>\<close>

text \<open>\<open>subscribe(channelName, config)\<close>: the channel of that name, created and entered in
  the registry when it is not there; \<open>None\<close> for \<open>null\<close>.\<close>

definition RealtimeManager_subscribe :: "string \<Rightarrow> realtime \<Rightarrow> nat option \<times> realtime" where
  "RealtimeManager_subscribe channelName s =
     (if \<not> manager_client s then (None, s)
      else
        (case map_of (registry s) channelName of
           Some h \<Rightarrow> (Some h, s)
         | None \<Rightarrow>
             (case provider_channel channelName s of
                (h, s') \<Rightarrow> (Some h, s'\<lparr>registry := registry s' @ [(channelName, h)]\<rparr>))))"

definition RealtimeManager_unsubscribe :: "string \<Rightarrow> realtime \<Rightarrow> realtime" where
  "RealtimeManager_unsubscribe channelName s =
     (case map_of (registry s) channelName of
        Some h \<Rightarrow>
          (let s' = channel_unsubscribe h s
           in s'\<lparr>registry := filter (\<lambda>(n, c). n \<noteq> channelName) (registry s')\<rparr>)
      | None \<Rightarrow> s)"

definition RealtimeManager_unsubscribeAll :: "realtime \<Rightarrow> realtime" where
  "RealtimeManager_unsubscribeAll s =
     (fold (\<lambda>(n, h). channel_unsubscribe h) (registry s) s)\<lparr>registry := []\<rparr>"

definition RealtimeManager_getChannel :: "string \<Rightarrow> realtime \<Rightarrow> nat option" where
  "RealtimeManager_getChannel channelName s = map_of (registry s) channelName"

subsection \<open>\<open>TableSubscriptions\<close>\<close>

text \<open>\<open>options\<close>: the members \<open>event\<close> and \<open>filter\<close>, each possibly absent.\<close>

record sub_options =
  opt_event :: "string option"
  opt_filter :: "string option"

text \<open>The name \<open>`table:${table}:${Date.now()}`\<close>.\<close>

definition table_channel_name :: "string \<Rightarrow> realtime \<Rightarrow> string" where
  "table_channel_name t s = ''table:'' @ t @ '':'' @ show_nat (now_ms s)"

text \<open>
  \<open>TableSubscriptions.subscribe(table, callback, options)\<close>: the function it returns (a
  closure over the channel it made, or the inert \<open>() => { }\<close> when there is no client),
  and the state it leaves.
\<close>

definition TableSubscriptions_subscribe :: "string \<Rightarrow> sub_options \<Rightarrow> realtime \<Rightarrow> (realtime \<Rightarrow> realtime) \<times> realtime" where
  "TableSubscriptions_subscribe t options s =
     (if \<not> client_now s then (\<lambda>s'. s', s)
      else
        (case provider_channel (table_channel_name t s) s of
           (h, s1) \<Rightarrow>
             (channel_unsubscribe h,
              channel_subscribe h
                (channel_on h (or_str (opt_event options) ''*'', t, opt_filter options) s1))))"

section \<open>Inputs for the examples\<close>

text \<open>
  The end-to-end scenario of the spec: a signed-in student with one supervising doctor
  completes \<open>letter-match\<close> of the module \<open>dyslexia\<close> with score 13 of 13 in 90
  seconds, on an empty store that answers every request.
\<close>

definition scenario_activity :: activity where
  "scenario_activity =
     \<lparr>act_moduleId = Some ''dyslexia'', act_activityId = Some ''letter-match'',
      act_score = 13, act_maxScore = Some 13, act_duration = Some 90,
      act_accuracy = None, act_metadata = None\<rparr>"

definition scenario_world :: world where
  "scenario_world =
     \<lparr>tables = (\<lambda>t. if t = ''doctor_patients''
                       then [[(''doctor_id'', JStr ''d1''), (''patient_id'', JStr ''u1''),
                              (''status'', JStr ''active'')]]
                       else []),
      requests = [], toasts = [], emails = [], tracker = None,
      outcome_of = (\<lambda>rq. Answers), auth = SignedIn ''u1'' ''alice@example.org'',
      supabase_loaded = True, email_api = True,
      clock = ''2025-01-01T00:00:00.000Z'', user_agent = ''agent''\<rparr>"

text \<open>An attempt with the given score out of 100 on the same activity.\<close>

definition attempt :: "rat \<Rightarrow> activity" where
  "attempt s = scenario_activity\<lparr>act_score := s, act_maxScore := Some 100\<rparr>"

text \<open>The same world with nobody signed in.\<close>

definition guest_world :: world where
  "guest_world = scenario_world\<lparr>auth := SignedOut\<rparr>"

text \<open>The same world with a second doctor who has added the student as a patient.\<close>

definition two_doctors_world :: world where
  "two_doctors_world =
     scenario_world
       \<lparr>tables := (\<lambda>t. if t = ''doctor_patients''
                          then [[(''doctor_id'', JStr ''d1''), (''patient_id'', JStr ''u1''),
                                 (''status'', JStr ''active'')],
                                [(''doctor_id'', JStr ''d2''), (''patient_id'', JStr ''u1''),
                                 (''status'', JStr ''active'')]]
                          else [])\<rparr>"

text \<open>The student as the tracker knows her, the scenario with her identity already
  cached, and the same without any supervising doctor.\<close>

definition alice :: tracker_user where
  "alice =
     \<lparr>u_id = ''u1'', u_email = ''alice@example.org'', u_name = ''alice'', u_role = ''student'',
      u_avatarUrl = JUndefined\<rparr>"

definition cached_world :: world where
  "cached_world = scenario_world\<lparr>tracker := Some alice\<rparr>"

definition no_doctor_world :: world where
  "no_doctor_world = cached_world\<lparr>tables := (\<lambda>t. [])\<rparr>"

text \<open>A module page of the same student on \<open>dyslexia\<close>, with nothing played so far.\<close>

definition scenario_page :: modules_page where
  "scenario_page =
     \<lparr>page_user = Some ''u1'', currentModule = JStr ''dyslexia'', activityProgress = Some []\<rparr>"




text \<open>A page with a client, no channel yet, at the time 5 of \<open>Date.now()\<close>; and a
  subscription to every change of the table \<open>progress\<close>.\<close>

definition fresh_page :: realtime where
  "fresh_page =
     \<lparr>provider = [], registry = [], manager_client = True, client_now = True, now_ms = 5\<rparr>"

definition any_change :: sub_options where
  "any_change = \<lparr>opt_event = None, opt_filter = None\<rparr>"

text \<open>
  A store that answers, where the student has one attempt on record and holds the
  achievement First Steps; and the same store when it fails every existence check on
  \<open>user_achievements\<close> with an error reply.
\<close>

definition awarded_world :: world where
  "awarded_world =
     cached_world
       \<lparr>tables := (\<lambda>t. if t = ''student_progress''
                          then [progressRecord alice ''dyslexia'' ''letter-match'' scenario_activity
                                  (clock cached_world)]
                          else if t = ''user_achievements''
                          then [achievement_row alice first_activity 100 (clock cached_world)]
                          else tables cached_world t)\<rparr>"

definition unanswered_world :: world where
  "unanswered_world =
     awarded_world
       \<lparr>outcome_of := (\<lambda>rq. case rq of
                               SelectSingle t fs \<Rightarrow>
                                 if t = ''user_achievements'' then ErrorResult ''Failed to fetch''
                                 else Answers
                             | _ \<Rightarrow> Answers)\<rparr>"

section \<open>Notions for the properties\<close>

text \<open>The part of a world that the store's calls and the toasts leave alone: the tracker's
  identity and the environment.\<close>

definition env_of :: "world \<Rightarrow> tracker_user option \<times> (request \<Rightarrow> outcome) \<times> auth_reply \<times> bool \<times> bool \<times> string \<times> string" where
  "env_of w =
     (tracker w, outcome_of w, auth w, supabase_loaded w, email_api w, clock w, user_agent w)"

text \<open>The identity provider reports a signed-in user.\<close>

definition signed_in :: "world \<Rightarrow> bool" where
  "signed_in w = (case auth w of SignedIn uid email \<Rightarrow> True | _ \<Rightarrow> False)"

text \<open>The object a call returned; the empty object when it threw.\<close>

definition returned :: "(string + obj) \<times> world \<Rightarrow> obj" where
  "returned x = (case fst x of Inl e \<Rightarrow> [] | Inr res \<Rightarrow> res)"

text \<open>
  An attempt is recorded when \<open>saveActivity\<close> answers \<open>success: true\<close> without the
  guest tag.
\<close>

definition recorded :: "activity \<Rightarrow> world \<Rightarrow> bool" where
  "recorded a w =
     (case fst (saveActivity a w) of
        Inl e \<Rightarrow> False
      | Inr res \<Rightarrow> member res ''success'' = JBool True \<and> \<not> has_member res ''guest'')"

text \<open>The requests that write, and the lookups of the supervising doctor, which only
  \<open>notifyDoctor\<close> sends.\<close>

fun is_write :: "request \<Rightarrow> bool" where
  "is_write (Insert t r) = True"
| "is_write (Upsert t r cols) = True"
| "is_write (Select t fs) = False"
| "is_write (SelectSingle t fs) = False"

fun is_link_lookup :: "request \<Rightarrow> bool" where
  "is_link_lookup (SelectSingle t fs) = (t = ''doctor_patients'')"
| "is_link_lookup (Select t fs) = False"
| "is_link_lookup (Insert t r) = False"
| "is_link_lookup (Upsert t r cols) = False"

text \<open>The filters of the lookup in \<open>notifyDoctor\<close>, for the student \<open>u\<close>.\<close>

definition active_link_of :: "tracker_user \<Rightarrow> filters" where
  "active_link_of u = [(''patient_id'', JStr (u_id u)), (''status'', JStr ''active'')]"

definition fanout_calls :: "world \<Rightarrow> nat" where
  "fanout_calls w = length (filter is_link_lookup (requests w))"

text \<open>
  The filters of the existence check in \<open>checkAchievements\<close>, the number of rows of
  \<open>user_achievements\<close> a user holds for an achievement id, and the invariant of the
  Achievement entity: at most one row for each user and achievement id.
\<close>

definition award_of :: "string \<Rightarrow> string \<Rightarrow> filters" where
  "award_of uid aid = [(''user_id'', JStr uid), (''achievement_id'', JStr aid)]"

definition held :: "string \<Rightarrow> string \<Rightarrow> world \<Rightarrow> nat" where
  "held uid aid w = length (filter (matches (award_of uid aid)) (tables w ''user_achievements''))"

definition awarded_once :: "world \<Rightarrow> bool" where
  "awarded_once w = (\<forall>uid aid. held uid aid w \<le> 1)"

text \<open>The store answers no existence check with an error reply.\<close>

definition checks_answered :: "world \<Rightarrow> bool" where
  "checks_answered w = (\<forall>fs e. outcome_of w (SelectSingle ''user_achievements'' fs) \<noteq> ErrorResult e)"

text \<open>
  The three ways the body of the loop can go for an achievement, read off the environment
  and the rows held: the existence check resolves no row; a row is added; an exception
  leaves the loop.
\<close>

definition throws :: "outcome \<Rightarrow> bool" where
  "throws x = (case x of Throws e \<Rightarrow> True | _ \<Rightarrow> False)"

definition lookup_missing :: "tracker_user \<Rightarrow> achievement \<Rightarrow> world \<Rightarrow> bool" where
  "lookup_missing u a w =
     (supabase_loaded w
      \<and> (case outcome_of w (SelectSingle ''user_achievements'' (award_of (u_id u) (ach_id a))) of
            Answers \<Rightarrow> held (u_id u) (ach_id a) w \<noteq> 1
          | ErrorResult e \<Rightarrow> True
          | Throws e \<Rightarrow> False))"

definition adds_row :: "tracker_user \<Rightarrow> int \<Rightarrow> achievement \<Rightarrow> world \<Rightarrow> bool" where
  "adds_row u p a w =
     (lookup_missing u a w
      \<and> outcome_of w (Insert ''user_achievements'' (achievement_row u a p (clock w))) = Answers)"

definition leaves_loop :: "tracker_user \<Rightarrow> int \<Rightarrow> achievement \<Rightarrow> world \<Rightarrow> bool" where
  "leaves_loop u p a w =
     (\<not> supabase_loaded w
      \<or> throws (outcome_of w (SelectSingle ''user_achievements'' (award_of (u_id u) (ach_id a))))
      \<or> (lookup_missing u a w
          \<and> throws (outcome_of w (Insert ''user_achievements'' (achievement_row u a p (clock w))))))"

text \<open>The conflict columns of the tracker's upsert.\<close>

definition attempt_key :: "string list" where
  "attempt_key = [''student_id'', ''module_type'', ''activity_id'']"


section \<open>Properties\<close>

subsection \<open>Rounding\<close>

lemma Math_round_mono: "x \<le> y \<Longrightarrow> Math_round x \<le> Math_round y"
  unfolding Math_round_def by (rule floor_mono) simp

lemma Math_round_of_int: "Math_round (of_int k) = k"
  unfolding Math_round_def by linarith

lemma Math_round_100: "Math_round 100 = 100"
  using Math_round_of_int [of 100] by simp

lemma Math_round_0: "Math_round 0 = 0"
  using Math_round_of_int [of 0] by simp

text \<open>The bounds of \<open>floorlog2\<close>, and rounding to an integer.\<close>

lemma bitlen_powi:
  assumes "0 < a"
  shows "(2::rat) powi (bitlen a - 1) \<le> of_int a" "of_int a < (2::rat) powi bitlen a"
proof -
  from bitlen_bounds [OF assms]
  have lo: "2 ^ nat (bitlen a - 1) \<le> a" and hi: "a < 2 ^ nat (bitlen a)" by blast+
  have pos: "1 \<le> bitlen a" using assms bitlen_eq_zero_iff [of a] bitlen_nonneg [of a] by linarith
  have "(2::rat) powi (bitlen a - 1) = of_int (2 ^ nat (bitlen a - 1))"
    using pos by (simp add: power_int_nonneg_exp)
  also have "\<dots> \<le> of_int a" using lo by (simp only: of_int_le_iff)
  finally show "(2::rat) powi (bitlen a - 1) \<le> of_int a" .
  have "(of_int a :: rat) < of_int (2 ^ nat (bitlen a))" using hi by (simp only: of_int_less_iff)
  also have "\<dots> = 2 powi bitlen a" using pos by (simp add: power_int_nonneg_exp)
  finally show "of_int a < (2::rat) powi bitlen a" .
qed

lemma floorlog2_bounds:
  assumes "0 < x"
  shows "2 powi floorlog2 x \<le> x" and "x < 2 powi (floorlog2 x + 1)"
proof -
  obtain a b where q: "quotient_of x = (a, b)" by (cases "quotient_of x")
  then have b: "0 < b" and x: "x = of_int a / of_int b"
    by (auto dest: quotient_of_denom_pos quotient_of_div)
  with assms have a: "0 < a" by (simp add: zero_less_divide_iff)
  let ?k = "bitlen a - bitlen b"
  note A = bitlen_powi [OF a] and B = bitlen_powi [OF b]
  have bpos: "(0::rat) < of_int b" using b by simp
  have "x < 2 powi bitlen a / of_int b"
    unfolding x using A(2) bpos by (simp add: divide_strict_right_mono)
  also have "\<dots> \<le> 2 powi bitlen a / 2 powi (bitlen b - 1)"
    using B(1) bpos by (intro divide_left_mono) (simp_all add: zero_less_power_int)
  also have "\<dots> = 2 powi (bitlen a - (bitlen b - 1))"
    by (rule power_int_diff [symmetric]) simp
  finally have up: "x < 2 powi (?k + 1)" by (simp add: algebra_simps)
  have "(2::rat) powi (bitlen a - 1 - bitlen b) = 2 powi (bitlen a - 1) / 2 powi bitlen b"
    by (rule power_int_diff) simp
  then have "(2::rat) powi (?k - 1) = 2 powi (bitlen a - 1) / 2 powi bitlen b"
    by (simp add: algebra_simps)
  also have "\<dots> \<le> of_int a / 2 powi bitlen b"
    using A(1) by (intro divide_right_mono) simp_all
  also have "\<dots> \<le> of_int a / of_int b"
    using B(2) a bpos by (intro divide_left_mono) simp_all
  finally have lo: "2 powi (?k - 1) \<le> x" unfolding x .
  show "2 powi floorlog2 x \<le> x"
    using lo by (simp add: floorlog2_def q Let_def)
  show "x < 2 powi (floorlog2 x + 1)"
    using up by (simp add: floorlog2_def q Let_def not_le)
qed

lemma floorlog2_mono:
  assumes "0 < x" and "x \<le> y"
  shows "floorlog2 x \<le> floorlog2 y"
proof (rule ccontr)
  assume "\<not> floorlog2 x \<le> floorlog2 y"
  then have "floorlog2 y + 1 \<le> floorlog2 x" by simp
  then have "(2::rat) powi (floorlog2 y + 1) \<le> 2 powi floorlog2 x"
    by (rule power_int_increasing) simp
  also have "\<dots> \<le> x" using assms(1) by (rule floorlog2_bounds)
  also have "\<dots> \<le> y" by fact
  finally show False using floorlog2_bounds(2) [of y] assms by simp
qed

lemma round_even_le: "y \<le> of_int n \<Longrightarrow> round_even y \<le> n"
proof -
  assume le: "y \<le> of_int n"
  then have f: "\<lfloor>y\<rfloor> \<le> n" by (simp add: floor_le_iff)
  show ?thesis
  proof (cases "\<lfloor>y\<rfloor> = n")
    case True
    with le have "y - of_int \<lfloor>y\<rfloor> \<le> 0" by simp
    then show ?thesis using True by (simp add: round_even_def Let_def)
  next
    case False
    with f have "\<lfloor>y\<rfloor> + 1 \<le> n" by simp
    then show ?thesis by (simp add: round_even_def Let_def)
  qed
qed

lemma round_even_ge: "of_int n \<le> y \<Longrightarrow> n \<le> round_even y"
proof -
  assume "of_int n \<le> y"
  then have "n \<le> \<lfloor>y\<rfloor>" by (simp add: le_floor_iff)
  then show ?thesis by (simp add: round_even_def Let_def)
qed

lemma round_even_mono:
  assumes "y \<le> z"
  shows "round_even y \<le> round_even z"
proof (cases "\<lfloor>y\<rfloor> = \<lfloor>z\<rfloor>")
  case True
  with assms have "y - of_int \<lfloor>y\<rfloor> \<le> z - of_int \<lfloor>z\<rfloor>" by simp
  then show ?thesis using True by (simp add: round_even_def Let_def)
next
  case False
  with assms have "\<lfloor>y\<rfloor> + 1 \<le> \<lfloor>z\<rfloor>" using floor_mono [OF assms] by simp
  then have "of_int (\<lfloor>y\<rfloor> + 1) \<le> z" by (simp only: le_floor_iff)
  then have "\<lfloor>y\<rfloor> + 1 \<le> round_even z" by (rule round_even_ge)
  moreover have "round_even y \<le> \<lfloor>y\<rfloor> + 1" by (simp add: round_even_def Let_def)
  ultimately show ?thesis by simp
qed

text \<open>
  \<open>round64\<close> is monotone. Two numbers with the same step round on the same grid; when
  the steps differ, a power of two lies between the two numbers, and rounding takes neither
  across it.
\<close>

lemma round64_pos:
  "0 < x \<Longrightarrow> round64 x = of_int (round_even (x / 2 powi ulp_exponent x)) * 2 powi ulp_exponent x"
  by (simp add: round64_def)

lemma round64_minus: "round64 (- x) = - round64 x"
  by (simp add: round64_def ulp_exponent_def)

lemma round64_nonneg: "0 \<le> x \<Longrightarrow> 0 \<le> round64 x"
proof (cases "x = 0")
  case True
  then show ?thesis by (simp add: round64_def)
next
  case False
  assume "0 \<le> x"
  with False have x: "0 < x" by simp
  have "(0::rat) \<le> x / 2 powi ulp_exponent x" using x by simp
  then have "of_int 0 \<le> x / 2 powi ulp_exponent x" by simp
  then have "0 \<le> round_even (x / 2 powi ulp_exponent x)" by (rule round_even_ge)
  then show ?thesis using x by (simp add: round64_pos)
qed

lemma powi_int: "0 \<le> k \<Longrightarrow> (2::rat) powi k = of_int (2 ^ nat k)"
  by (simp add: power_int_nonneg_exp)

lemma round64_below_power:
  assumes x: "0 < x" and lt: "x \<le> 2 powi l" and e: "ulp_exponent x \<le> l"
  shows "round64 x \<le> 2 powi l"
proof -
  let ?e = "ulp_exponent x"
  have "x / 2 powi ?e \<le> 2 powi l / 2 powi ?e"
    using lt by (intro divide_right_mono) simp_all
  also have "\<dots> = 2 powi (l - ?e)" by (rule power_int_diff [symmetric]) simp
  also have "\<dots> = of_int (2 ^ nat (l - ?e))" using e by (simp add: powi_int)
  finally have "round_even (x / 2 powi ?e) \<le> 2 ^ nat (l - ?e)" by (rule round_even_le)
  then have "(of_int (round_even (x / 2 powi ?e)) :: rat) \<le> of_int (2 ^ nat (l - ?e))"
    by (simp only: of_int_le_iff)
  also have "\<dots> = 2 powi (l - ?e)" using e by (simp add: powi_int)
  finally have "of_int (round_even (x / 2 powi ?e)) * 2 powi ?e \<le> 2 powi (l - ?e) * (2::rat) powi ?e"
    by (intro mult_right_mono) simp_all
  also have "\<dots> = 2 powi (l - ?e + ?e)" by (rule power_int_add [symmetric]) simp
  finally show ?thesis using x by (simp add: round64_pos)
qed

lemma round64_above_power:
  assumes x: "0 < x" and ge: "2 powi l \<le> x" and e: "ulp_exponent x \<le> l"
  shows "2 powi l \<le> round64 x"
proof -
  let ?e = "ulp_exponent x"
  have "(2::rat) powi (l - ?e + ?e) = 2 powi (l - ?e) * 2 powi ?e"
    by (rule power_int_add) simp
  then have "(2::rat) powi l = 2 powi (l - ?e) * 2 powi ?e" by simp
  also have "2 powi (l - ?e) = (of_int (2 ^ nat (l - ?e)) :: rat)" using e by (simp add: powi_int)
  finally have l: "(2::rat) powi l = of_int (2 ^ nat (l - ?e)) * 2 powi ?e" .
  have "(of_int (2 ^ nat (l - ?e)) :: rat) = 2 powi (l - ?e)" using e by (simp add: powi_int)
  also have "\<dots> = 2 powi l / 2 powi ?e" by (rule power_int_diff) simp
  also have "\<dots> \<le> x / 2 powi ?e" using ge by (intro divide_right_mono) simp_all
  finally have "2 ^ nat (l - ?e) \<le> round_even (x / 2 powi ?e)" by (rule round_even_ge)
  then have "(of_int (2 ^ nat (l - ?e)) :: rat) \<le> of_int (round_even (x / 2 powi ?e))"
    by (simp only: of_int_le_iff)
  then have "of_int (2 ^ nat (l - ?e)) * 2 powi ?e
               \<le> of_int (round_even (x / 2 powi ?e)) * (2::rat) powi ?e"
    by (intro mult_right_mono) simp_all
  then show ?thesis unfolding l using x by (simp add: round64_pos)
qed

lemma round64_mono_pos:
  assumes x: "0 < x" and le: "x \<le> y"
  shows "round64 x \<le> round64 y"
proof -
  from x le have y: "0 < y" by simp
  let ?ex = "ulp_exponent x" and ?ey = "ulp_exponent y"
  have L: "floorlog2 x \<le> floorlog2 y" using x le by (rule floorlog2_mono)
  have ex: "?ex = max (- 1074) (floorlog2 x - 52)" using x by (simp add: ulp_exponent_def)
  have ey: "?ey = max (- 1074) (floorlog2 y - 52)" using y by (simp add: ulp_exponent_def)
  show ?thesis
  proof (cases "?ex = ?ey")
    case True
    have "x / 2 powi ?ey \<le> y / 2 powi ?ey" using le by (intro divide_right_mono) simp_all
    then have "round_even (x / 2 powi ?ey) \<le> round_even (y / 2 powi ?ey)" by (rule round_even_mono)
    then have "(of_int (round_even (x / 2 powi ?ey)) :: rat) \<le> of_int (round_even (y / 2 powi ?ey))"
      by (simp only: of_int_le_iff)
    then have "of_int (round_even (x / 2 powi ?ey)) * 2 powi ?ey
                 \<le> of_int (round_even (y / 2 powi ?ey)) * (2::rat) powi ?ey"
      by (intro mult_right_mono) simp_all
    then show ?thesis using x y True by (simp add: round64_pos)
  next
    case False
    with L ex ey have lt: "?ex < ?ey" by linarith
    with ex ey have eyl: "?ey = floorlog2 y - 52" and xl: "floorlog2 x + 1 \<le> floorlog2 y"
      by linarith+
    let ?l = "floorlog2 y"
    have "x < 2 powi (floorlog2 x + 1)" using x by (rule floorlog2_bounds)
    also have "\<dots> \<le> 2 powi ?l" using xl by (rule power_int_increasing) simp
    finally have "x \<le> 2 powi ?l" by simp
    moreover have "?ex \<le> ?l" using lt eyl by simp
    ultimately have "round64 x \<le> 2 powi ?l" using x by (intro round64_below_power)
    also have "\<dots> \<le> round64 y"
      using y floorlog2_bounds(1) [OF y] eyl by (intro round64_above_power) simp_all
    finally show ?thesis .
  qed
qed

lemma round64_mono:
  assumes "x \<le> y"
  shows "round64 x \<le> round64 y"
proof -
  consider "0 < x" | "x \<le> 0" "0 \<le> y" | "y < 0" using assms by linarith
  then show ?thesis
  proof cases
    case 1
    then show ?thesis using assms by (rule round64_mono_pos)
  next
    case 2
    then have "0 \<le> round64 (- x)" and "0 \<le> round64 y" by (simp_all add: round64_nonneg)
    then show ?thesis by (simp add: round64_minus)
  next
    case 3
    then have "0 < - y" and "- y \<le> - x" using assms by simp_all
    then have "round64 (- y) \<le> round64 (- x)" by (rule round64_mono_pos)
    then show ?thesis by (simp add: round64_minus)
  qed
qed

lemma round64_exact: "round64 0 = 0" "round64 1 = 1" "round64 100 = 100"
  by code_simp+

lemma percent_bounds:
  fixes s m :: rat
  assumes "0 < m"
  shows "0 \<le> s \<Longrightarrow> 0 \<le> Math_round (times64 (divide64 s m) 100)"
    and "s \<le> m \<Longrightarrow> Math_round (times64 (divide64 s m) 100) \<le> 100"
    and "m \<le> s \<Longrightarrow> 100 \<le> Math_round (times64 (divide64 s m) 100)"
proof -
  have up: "x \<le> 1 \<Longrightarrow> Math_round (round64 (round64 x * 100)) \<le> 100" for x
  proof -
    assume "x \<le> 1"
    then have "round64 x \<le> 1" using round64_mono [of x 1] by (simp add: round64_exact)
    then have "round64 x * 100 \<le> 100" by simp
    then have "round64 (round64 x * 100) \<le> 100"
      using round64_mono [of "round64 x * 100" 100] by (simp add: round64_exact)
    then show ?thesis using Math_round_mono [of "round64 (round64 x * 100)" 100]
      by (simp add: Math_round_100)
  qed
  have down: "1 \<le> x \<Longrightarrow> 100 \<le> Math_round (round64 (round64 x * 100))" for x
  proof -
    assume "1 \<le> x"
    then have "1 \<le> round64 x" using round64_mono [of 1 x] by (simp add: round64_exact)
    then have "100 \<le> round64 x * 100" by simp
    then have "100 \<le> round64 (round64 x * 100)"
      using round64_mono [of 100 "round64 x * 100"] by (simp add: round64_exact)
    then show ?thesis using Math_round_mono [of 100 "round64 (round64 x * 100)"]
      by (simp add: Math_round_100)
  qed
  show "0 \<le> Math_round (times64 (divide64 s m) 100)" if "0 \<le> s"
  proof -
    have "0 \<le> s / m" using that assms by simp
    then have "0 \<le> round64 (s / m) * 100" by (simp add: round64_nonneg)
    then have "0 \<le> round64 (round64 (s / m) * 100)" by (rule round64_nonneg)
    then show ?thesis
      using Math_round_mono [of 0 "round64 (round64 (s / m) * 100)"]
      by (simp add: Math_round_0 times64_def divide64_def)
  qed
  show "Math_round (times64 (divide64 s m) 100) \<le> 100" if "s \<le> m"
    using up [of "s / m"] that assms by (simp add: times64_def divide64_def divide_le_eq)
  show "100 \<le> Math_round (times64 (divide64 s m) 100)" if "m \<le> s"
    using down [of "s / m"] that assms by (simp add: times64_def divide64_def le_divide_eq)
qed

lemma clamp_percentage:
  fixes s m :: rat
  assumes "0 \<le> s" and "0 < m"
  shows "min 100 (Math_round (times64 (divide64 s m) 100))
           = Math_round (times64 (divide64 (min s m) m) 100)"
    and "0 \<le> min 100 (Math_round (times64 (divide64 s m) 100))"
proof -
  show "0 \<le> min 100 (Math_round (times64 (divide64 s m) 100))"
    using percent_bounds(1) [OF assms(2) assms(1)] by simp
  show "min 100 (Math_round (times64 (divide64 s m) 100))
          = Math_round (times64 (divide64 (min s m) m) 100)"
  proof (cases "s \<le> m")
    case True
    then have "Math_round (times64 (divide64 s m) 100) \<le> 100"
      by (rule percent_bounds(2) [OF assms(2)])
    with True show ?thesis by (simp add: min_def)
  next
    case False
    then have "m \<le> s" by simp
    then have "100 \<le> Math_round (times64 (divide64 s m) 100)"
      by (rule percent_bounds(3) [OF assms(2)])
    moreover have "Math_round (times64 (divide64 m m) 100) = 100"
      using percent_bounds(2) [OF assms(2), of m] percent_bounds(3) [OF assms(2), of m] by simp
    ultimately show ?thesis using False by (simp add: min_def)
  qed
qed

lemmas catalog_defs =
  saveActivity_maxScore_def or_num_def or_str_def activityInfo_def moduleInfo_def modules_def
  entry_def activity_name_or_def module_name_text_def moduleActivities_def

lemmas scenario_defs =
  scenario_activity_def scenario_world_def attempt_def guest_world_def two_doctors_world_def
  alice_def cached_world_def no_doctor_world_def scenario_page_def

subsection \<open>The percentage of the Activity Recorder\<close>

text \<open>
  C1. For every score \<open>\<ge> 0\<close> and maxScore \<open>> 0\<close> (the maximum \<open>saveActivity\<close> settles
  on: the caller's, else the catalog's, else 100), the percentage of \<open>saveActivity\<close> is
  \<open>min(100, round(score / maxScore * 100))\<close>, the quotient and the product being those of
  doubles; this value equals \<open>round(min(score, maxScore) / maxScore * 100)\<close> and lies in
  [0, 100].
\<close>

theorem saveActivity_percentage_clamped:
  assumes "0 \<le> act_score a" and "0 < saveActivity_maxScore moduleId activityId a"
  shows "saveActivity_percentage moduleId activityId a
           = min 100 (Math_round (times64 (divide64 (act_score a)
                                           (saveActivity_maxScore moduleId activityId a)) 100))
       \<and> saveActivity_percentage moduleId activityId a
           = Math_round (times64 (divide64 (min (act_score a) (saveActivity_maxScore moduleId activityId a))
                                    (saveActivity_maxScore moduleId activityId a)) 100)
       \<and> 0 \<le> saveActivity_percentage moduleId activityId a
       \<and> saveActivity_percentage moduleId activityId a \<le> 100"
  using clamp_percentage [OF assms] by (simp add: saveActivity_percentage_def)

lemma percentage_runs:
  "saveActivity_percentage ''dyslexia'' ''letter-match'' (attempt 150) = 100"
  "Math_round (times64 (divide64 (min 150 100) 100) 100) = 100"
  "saveActivity_percentage ''dyslexia'' ''letter-match''
     (scenario_activity\<lparr>act_score := 23, act_maxScore := Some 40\<rparr>) = 57"
  "saveActivity_percentage ''dyslexia'' ''letter-match''
     (scenario_activity\<lparr>act_score := 45, act_maxScore := Some 200\<rparr>) = 23"
  by code_simp+

text \<open>
  A score of 150 out of 100 gives 100. 23 out of 40 gives 57: the quotient 0.575 is not a
  double, and the product of its double by 100 is the double just below 57.5. 45 out of
  200 gives 23.
\<close>

theorem saveActivity_percentage_clamped_witness:
  "0 \<le> act_score (attempt 150)
   \<and> 0 < saveActivity_maxScore ''dyslexia'' ''letter-match'' (attempt 150)
   \<and> saveActivity_percentage ''dyslexia'' ''letter-match'' (attempt 150) = 100
   \<and> Math_round (times64 (divide64 (min (act_score (attempt 150))
                                       (saveActivity_maxScore ''dyslexia'' ''letter-match'' (attempt 150)))
                                  (saveActivity_maxScore ''dyslexia'' ''letter-match'' (attempt 150)))
                       100) = 100
   \<and> saveActivity_percentage ''dyslexia'' ''letter-match''
        (scenario_activity\<lparr>act_score := 23, act_maxScore := Some 40\<rparr>) = 57
   \<and> saveActivity_percentage ''dyslexia'' ''letter-match''
        (scenario_activity\<lparr>act_score := 45, act_maxScore := Some 200\<rparr>) = 23"
proof -
  have score: "act_score (attempt 150) = 150"
    by (simp add: scenario_defs)
  have maxScore: "saveActivity_maxScore ''dyslexia'' ''letter-match'' (attempt 150) = 100"
    by (simp add: scenario_defs catalog_defs)
  from saveActivity_percentage_clamped [of "attempt 150" "''dyslexia''" "''letter-match''"]
    score maxScore percentage_runs
  show ?thesis by simp
qed

subsection \<open>Points\<close>



subsection \<open>The objects and the upsert\<close>

lemma map_of_overwrite:
  "map_of (map (\<lambda>(k, v). (k, case m k of None \<Rightarrow> v | Some v' \<Rightarrow> v')) a) k
     = (case map_of a k of None \<Rightarrow> None | Some v \<Rightarrow> Some (case m k of None \<Rightarrow> v | Some v' \<Rightarrow> v'))"
  by (induction a) (auto split: option.splits)

lemma map_of_filter_keys:
  "k \<notin> S \<Longrightarrow> map_of (filter (\<lambda>(k, v). k \<notin> S) b) k = map_of b k"
  by (induction b) auto

lemma map_of_spread:
  "map_of (spread a b) k = (case map_of b k of None \<Rightarrow> map_of a k | Some v \<Rightarrow> Some v)"
proof (cases "map_of a k")
  case None
  then have "k \<notin> set (map fst a)" by (simp add: map_of_eq_None_iff)
  with None show ?thesis
    by (simp add: spread_def map_add_def map_of_overwrite map_of_filter_keys split: option.splits)
next
  case (Some v)
  then show ?thesis
    by (simp add: spread_def map_add_def map_of_overwrite split: option.splits)
qed

lemma member_spread:
  "member (spread a b) k = (if k \<in> set (map fst b) then member b k else member a k)"
proof (cases "map_of b k")
  case None
  then have "k \<notin> set (map fst b)" by (simp add: map_of_eq_None_iff)
  with None show ?thesis by (simp add: member_def map_of_spread)
next
  case (Some v)
  then have "k \<in> set (map fst b)" by (metis map_of_eq_None_iff option.distinct(1) set_map)
  with Some show ?thesis by (simp add: member_def map_of_spread)
qed

text \<open>What an upsert leaves: a row under the key, and under the key only the new columns.\<close>

lemma upsert_rows_has:
  assumes "list_all (\<lambda>c. c \<in> set (map fst r)) cols"
  shows "list_ex (same_key cols r) (upsert_rows cols r rs)"
proof (cases "list_ex (same_key cols r) rs")
  case True
  then obtain r' where r': "r' \<in> set rs" "same_key cols r r'" by (auto simp: list_ex_iff)
  have "same_key cols r (spread r' r)"
    using assms by (auto simp: same_key_def list_all_iff member_spread)
  with r' True show ?thesis
    unfolding upsert_rows_def list_ex_iff by (auto intro!: bexI [of _ "spread r' r"] image_eqI [of _ _ r'])
next
  case False
  have "same_key cols r r" by (simp add: same_key_def list_all_iff)
  with False show ?thesis by (simp add: upsert_rows_def list_ex_iff)
qed

lemma upsert_rows_columns:
  assumes "list_all (\<lambda>c. c \<in> set (map fst r)) cols"
    and "r' \<in> set (upsert_rows cols r rs)" and "same_key cols r r'" and "c \<in> set (map fst r)"
  shows "member r' c = member r c"
proof (cases "list_ex (same_key cols r) rs")
  case True
  with assms(2) obtain r0 where r0: "r0 \<in> set rs"
      "r' = (if same_key cols r r0 then spread r0 r else r0)"
    by (auto simp: upsert_rows_def)
  show ?thesis
  proof (cases "same_key cols r r0")
    case True
    with r0 assms(4) show ?thesis by (simp add: member_spread)
  next
    case False
    with r0 assms(3) show ?thesis by simp
  qed
next
  case False
  with assms(2,3) have "r' = r" by (auto simp: upsert_rows_def list_ex_iff)
  then show ?thesis by simp
qed

subsection \<open>What the calls leave alone\<close>

lemma env_ofD:
  assumes "env_of w' = env_of w"
  shows "tracker w' = tracker w" "outcome_of w' = outcome_of w" "auth w' = auth w"
    "supabase_loaded w' = supabase_loaded w" "email_api w' = email_api w"
    "clock w' = clock w" "user_agent w' = user_agent w"
  using assms by (simp_all add: env_of_def)

lemma sent_frame [simp]:
  "env_of (sent rq w) = env_of w" "tables (sent rq w) = tables w" "toasts (sent rq w) = toasts w"
  "emails (sent rq w) = emails w" "requests (sent rq w) = requests w @ [rq]"
  by (simp_all add: sent_def env_of_def)

lemma showToast_frame [simp]:
  "env_of (showToast m ty w) = env_of w" "tables (showToast m ty w) = tables w"
  "requests (showToast m ty w) = requests w" "emails (showToast m ty w) = emails w"
  "toasts (showToast m ty w) = toasts w @ [(ty, m)]"
  by (simp_all add: showToast_def env_of_def)

lemma gw_select_world [simp]: "snd (gw_select t fs w) = sent (Select t fs) w"
  by (simp add: gw_select_def split: outcome.splits)

lemma gw_select_single_world [simp]: "snd (gw_select_single t fs w) = sent (SelectSingle t fs) w"
  by (simp add: gw_select_single_def split: outcome.splits)

lemma gw_insert_frame [simp]:
  "env_of (snd (gw_insert t r w)) = env_of w"
  "toasts (snd (gw_insert t r w)) = toasts w"
  "emails (snd (gw_insert t r w)) = emails w"
  "requests (snd (gw_insert t r w)) = requests w @ [Insert t r]"
  "t' \<noteq> t \<Longrightarrow> tables (snd (gw_insert t r w)) t' = tables w t'"
  by (simp_all add: gw_insert_def env_of_def sent_def split: outcome.splits)

lemma gw_insert_table:
  "tables (snd (gw_insert t r w)) t
     = (if outcome_of w (Insert t r) = Answers then tables w t @ [r] else tables w t)"
  by (simp add: gw_insert_def sent_def split: outcome.splits)

lemma gw_upsert_frame [simp]:
  "env_of (snd (gw_upsert t r cols w)) = env_of w"
  "toasts (snd (gw_upsert t r cols w)) = toasts w"
  "emails (snd (gw_upsert t r cols w)) = emails w"
  "requests (snd (gw_upsert t r cols w)) = requests w @ [Upsert t r cols]"
  "t' \<noteq> t \<Longrightarrow> tables (snd (gw_upsert t r cols w)) t' = tables w t'"
  by (simp_all add: gw_upsert_def env_of_def sent_def split: outcome.splits)

lemma gw_upsert_table:
  "tables (snd (gw_upsert t r cols w)) t
     = (if outcome_of w (Upsert t r cols) = Answers then upsert_rows cols r (tables w t)
        else tables w t)"
  by (simp add: gw_upsert_def sent_def split: outcome.splits)

lemma wrapper_logActivity_world:
  "snd (wrapper_logActivity ty md w)
     = (case auth w of
          SignedIn uid email \<Rightarrow>
            snd (gw_insert ''activity_logs''
                   [(''user_id'', JStr uid), (''activity_type'', ty), (''metadata'', md),
                    (''ip_address'', JNull), (''user_agent'', JStr (user_agent w))] w)
        | _ \<Rightarrow> w)"
  by (simp add: wrapper_logActivity_def split: auth_reply.splits prod.splits reply.splits option.splits)

lemma wrapper_logActivity_frame [simp]:
  "env_of (snd (wrapper_logActivity ty md w)) = env_of w"
  "toasts (snd (wrapper_logActivity ty md w)) = toasts w"
  "emails (snd (wrapper_logActivity ty md w)) = emails w"
  "t' \<noteq> ''activity_logs'' \<Longrightarrow> tables (snd (wrapper_logActivity ty md w)) t' = tables w t'"
  by (simp_all add: wrapper_logActivity_world split: auth_reply.splits)

subsection \<open>What the tracker's functions leave alone\<close>

lemma client_world: "snd (client call w) = (if supabase_loaded w then snd (call w) else w)"
  by (simp add: client_def)

lemma client_frame [simp]:
  "env_of (snd (client (gw_select t fs) w)) = env_of w"
  "tables (snd (client (gw_select t fs) w)) = tables w"
  "toasts (snd (client (gw_select t fs) w)) = toasts w"
  "emails (snd (client (gw_select t fs) w)) = emails w"
  "env_of (snd (client (gw_select_single t fs) w)) = env_of w"
  "tables (snd (client (gw_select_single t fs) w)) = tables w"
  "toasts (snd (client (gw_select_single t fs) w)) = toasts w"
  "emails (snd (client (gw_select_single t fs) w)) = emails w"
  "env_of (snd (client (gw_insert t r) w)) = env_of w"
  "toasts (snd (client (gw_insert t r) w)) = toasts w"
  "emails (snd (client (gw_insert t r) w)) = emails w"
  "t' \<noteq> t \<Longrightarrow> tables (snd (client (gw_insert t r) w)) t' = tables w t'"
  "env_of (snd (client (gw_upsert t r cols) w)) = env_of w"
  "toasts (snd (client (gw_upsert t r cols) w)) = toasts w"
  "emails (snd (client (gw_upsert t r cols) w)) = emails w"
  "t' \<noteq> t \<Longrightarrow> tables (snd (client (gw_upsert t r cols) w)) t' = tables w t'"
  by (simp_all add: client_world)

lemma unlocked_frame [simp]:
  "env_of (unlocked u a w) = env_of w" "tables (unlocked u a w) = tables w"
  "requests (unlocked u a w) = requests w"
  by (simp_all add: unlocked_def showAchievementUnlocked_def Let_def env_of_def showToast_def)


lemma save_achievement_frame [simp]:
  "env_of (snd (save_achievement u p a w)) = env_of w"
  "t' \<noteq> ''user_achievements'' \<Longrightarrow> tables (snd (save_achievement u p a w)) t' = tables w t'"
  by (simp_all add: save_achievement_def case_prod_beta split: reply.splits option.splits)

lemma save_achievements_env [simp]: "env_of (snd (save_achievements u p as w)) = env_of w"
  by (induction as arbitrary: w) (simp_all add: case_prod_beta split: sum.splits)

lemma save_achievements_tables [simp]:
  "t' \<noteq> ''user_achievements'' \<Longrightarrow> tables (snd (save_achievements u p as w)) t' = tables w t'"
  by (induction as arbitrary: w) (simp_all add: case_prod_beta split: sum.splits)

lemma checkAchievements_try_frame [simp]:
  "env_of (snd (checkAchievements_try m p w)) = env_of w"
  "t' \<noteq> ''user_achievements'' \<Longrightarrow> tables (snd (checkAchievements_try m p w)) t' = tables w t'"
  by (simp_all add: checkAchievements_try_def case_prod_beta split: reply.splits option.splits)

lemma checkAchievements_world: "snd (checkAchievements m p w) = snd (checkAchievements_try m p w)"
  by (simp add: checkAchievements_def split: prod.splits sum.splits)

lemma checkAchievements_returns: "fst (checkAchievements m p w) = Inr ()"
  by (simp add: checkAchievements_def split: prod.splits sum.splits)

lemma checkAchievements_frame [simp]:
  "env_of (snd (checkAchievements m p w)) = env_of w"
  "t' \<noteq> ''user_achievements'' \<Longrightarrow> tables (snd (checkAchievements m p w)) t' = tables w t'"
  by (simp_all add: checkAchievements_world)

lemma notifyDoctor_try_frame [simp]:
  "env_of (snd (notifyDoctor_try m i a p w)) = env_of w"
  "t' \<noteq> ''notifications'' \<Longrightarrow> tables (snd (notifyDoctor_try m i a p w)) t' = tables w t'"
  "toasts (snd (notifyDoctor_try m i a p w)) = toasts w"
  by (simp_all add: notifyDoctor_try_def case_prod_beta split: reply.splits option.splits)

lemma notifyDoctor_world: "snd (notifyDoctor m i a p w) = snd (notifyDoctor_try m i a p w)"
  by (simp add: notifyDoctor_def split: prod.splits sum.splits)

lemma notifyDoctor_returns: "fst (notifyDoctor m i a p w) = Inr ()"
  by (simp add: notifyDoctor_def split: prod.splits sum.splits)

lemma notifyDoctor_frame [simp]:
  "env_of (snd (notifyDoctor m i a p w)) = env_of w"
  "t' \<noteq> ''notifications'' \<Longrightarrow> tables (snd (notifyDoctor m i a p w)) t' = tables w t'"
  "toasts (snd (notifyDoctor m i a p w)) = toasts w"
  by (simp_all add: notifyDoctor_world)

lemma logActivityHistory_frame [simp]:
  "env_of (snd (logActivityHistory m i a p w)) = env_of w"
  "t' \<noteq> ''activity_logs'' \<Longrightarrow> tables (snd (logActivityHistory m i a p w)) t' = tables w t'"
  "toasts (snd (logActivityHistory m i a p w)) = toasts w"
  "fst (logActivityHistory m i a p w) = Inr ()"
  by (simp_all add: logActivityHistory_def)

lemma showSuccessFeedback_frame [simp]:
  "env_of (showSuccessFeedback m i p w) = env_of w"
  "tables (showSuccessFeedback m i p w) = tables w"
  "requests (showSuccessFeedback m i p w) = requests w"
  by (simp_all add: showSuccessFeedback_def)

lemma showLocalFeedback_frame [simp]:
  "env_of (showLocalFeedback w) = env_of w"
  "tables (showLocalFeedback w) = tables w"
  "requests (showLocalFeedback w) = requests w"
  "emails (showLocalFeedback w) = emails w"
  "toasts (showLocalFeedback w)
     = toasts w @ [(''info'', ''Score saved locally! Log in to track your progress.'')]"
  by (simp_all add: showLocalFeedback_def)

subsection \<open>The result and the table of a recording\<close>

lemma client_upsert_reply:
  "fst (client (gw_upsert t r cols) w)
     = (if \<not> supabase_loaded w then Rejected ''CognoSupabase is not defined''
        else case outcome_of w (Upsert t r cols) of
               Answers \<Rightarrow> Reply (Some (filter (same_key cols r) (upsert_rows cols r (tables w t)))) None
             | ErrorResult e \<Rightarrow> Reply None (Some e)
             | Throws e \<Rightarrow> Rejected e)"
  by (simp add: client_def gw_upsert_def split: outcome.splits)

lemma client_upsert_table:
  "tables (snd (client (gw_upsert t r cols) w)) t
     = (if supabase_loaded w \<and> outcome_of w (Upsert t r cols) = Answers
        then upsert_rows cols r (tables w t) else tables w t)"
  by (simp add: client_world gw_upsert_table)

lemma saveActivity_record_result:
  "fst (saveActivity_record u m i a w)
     = (if \<not> supabase_loaded w then Inl ''CognoSupabase is not defined''
        else case outcome_of w (Upsert ''student_progress'' (progressRecord u m i a (clock w)) attempt_key) of
               Answers \<Rightarrow>
                 Inr [(''success'', JBool True),
                      (''data'', rows_value (Some (filter (same_key attempt_key (progressRecord u m i a (clock w)))
                          (upsert_rows attempt_key (progressRecord u m i a (clock w))
                             (tables w ''student_progress''))))),
                      (''percentage'', JNum (of_int (saveActivity_percentage m i a)))]
             | ErrorResult e \<Rightarrow> Inr [(''success'', JBool False), (''error'', JStr e)]
             | Throws e \<Rightarrow> Inl e)"
  by (simp add: saveActivity_record_def Let_def case_prod_beta client_upsert_reply
      attempt_key_def [symmetric] checkAchievements_returns notifyDoctor_returns
      split: outcome.splits)

lemma saveActivity_record_table:
  "tables (snd (saveActivity_record u m i a w)) ''student_progress''
     = (if supabase_loaded w
           \<and> outcome_of w (Upsert ''student_progress'' (progressRecord u m i a (clock w)) attempt_key)
               = Answers
        then upsert_rows attempt_key (progressRecord u m i a (clock w)) (tables w ''student_progress'')
        else tables w ''student_progress'')"
  by (simp add: saveActivity_record_def Let_def case_prod_beta client_upsert_reply
      client_upsert_table
      attempt_key_def [symmetric] checkAchievements_returns notifyDoctor_returns
      split: outcome.splits)

subsection \<open>The steps of \<open>saveActivity\<close>\<close>

lemma getCurrentUser_world:
  "snd (getCurrentUser w)
     = (if supabase_loaded w
        then (case auth w of
                SignedIn uid email \<Rightarrow> sent (SelectSingle ''profiles'' [(''id'', JStr uid)]) w
              | _ \<Rightarrow> w)
        else w)"
  by (simp add: getCurrentUser_def wrapper_getCurrentUser_def member_def case_prod_beta
      split: auth_reply.splits reply.splits option.splits jsval.splits)

lemma getCurrentUser_user:
  "fst (getCurrentUser w)
     = (if supabase_loaded w
        then (case auth w of
                SignedIn uid email \<Rightarrow>
                  (case outcome_of w (SelectSingle ''profiles'' [(''id'', JStr uid)]) of
                     Throws e \<Rightarrow> None
                   | _ \<Rightarrow> Some \<lparr>u_id = uid, u_email = email,
                                 u_name = takeWhile (\<lambda>c. c \<noteq> CHR ''@'') email,
                                 u_role = ''student'', u_avatarUrl = JUndefined\<rparr>)
              | _ \<Rightarrow> None)
        else None)"
  by (simp add: getCurrentUser_def wrapper_getCurrentUser_def member_def gw_select_single_def
      single_row_def
      split: auth_reply.splits reply.splits option.splits jsval.splits outcome.splits list.splits)

lemma refresh_user_world:
  "refresh_user w
     = (if tracker w = None then (snd (getCurrentUser w))\<lparr>tracker := fst (getCurrentUser w)\<rparr> else w)"
  by (simp add: refresh_user_def case_prod_beta)

lemma refresh_user_frame [simp]:
  "tables (refresh_user w) = tables w"
  "toasts (refresh_user w) = toasts w"
  "emails (refresh_user w) = emails w"
  "outcome_of (refresh_user w) = outcome_of w"
  "auth (refresh_user w) = auth w"
  "supabase_loaded (refresh_user w) = supabase_loaded w"
  "email_api (refresh_user w) = email_api w"
  "clock (refresh_user w) = clock w"
  "user_agent (refresh_user w) = user_agent w"
  "filter is_write (requests (refresh_user w)) = filter is_write (requests w)"
  "filter is_link_lookup (requests (refresh_user w)) = filter is_link_lookup (requests w)"
  by (simp_all add: refresh_user_world getCurrentUser_world sent_def split: auth_reply.splits)

lemma refresh_user_tracker:
  "tracker (refresh_user w) = (if tracker w = None then fst (getCurrentUser w) else tracker w)"
  by (simp add: refresh_user_world)

lemma saveActivity_result:
  "fst (saveActivity a w)
     = Inr (if falsy_str (act_moduleId a) \<or> falsy_str (act_activityId a)
            then [(''success'', JBool False), (''error'', JStr ''Missing required fields'')]
            else (case tracker (refresh_user w) of
                    None \<Rightarrow> [(''success'', JBool True), (''guest'', JBool True)]
                  | Some u \<Rightarrow>
                      (case fst (saveActivity_record u (present (act_moduleId a))
                                   (present (act_activityId a)) a (refresh_user w)) of
                         Inl e \<Rightarrow> [(''success'', JBool False), (''error'', JStr e)]
                       | Inr res \<Rightarrow> res)))"
  by (simp add: saveActivity_def saveActivity_try_def case_prod_beta split: option.splits sum.splits)

lemma saveActivity_world:
  "snd (saveActivity a w)
     = (if falsy_str (act_moduleId a) \<or> falsy_str (act_activityId a) then w
        else (case tracker (refresh_user w) of
                None \<Rightarrow> showLocalFeedback (refresh_user w)
              | Some u \<Rightarrow>
                  snd (saveActivity_record u (present (act_moduleId a))
                         (present (act_activityId a)) a (refresh_user w))))"
  by (simp add: saveActivity_def saveActivity_try_def case_prod_beta split: option.splits sum.splits)

lemma recorded_iff:
  "recorded a w \<longleftrightarrow>
     \<not> falsy_str (act_moduleId a) \<and> \<not> falsy_str (act_activityId a)
     \<and> (\<exists>u. tracker (refresh_user w) = Some u \<and> supabase_loaded w
            \<and> outcome_of w (Upsert ''student_progress''
                  (progressRecord u (present (act_moduleId a)) (present (act_activityId a)) a (clock w))
                  attempt_key) = Answers)"
  by (auto simp: recorded_def saveActivity_result saveActivity_record_result member_def has_member_def
      split: option.splits outcome.splits)

subsection \<open>The result of a recording\<close>

lemma scenario_recorded: "recorded scenario_activity scenario_world"
  by code_simp

lemma scenario_returned:
  "map fst (returned (saveActivity scenario_activity scenario_world)) = [''success'', ''data'', ''percentage'']"
  by code_simp

text \<open>
  C3, as stated, fails: in the scenario the attempt is recorded and the object
  \<open>saveActivity\<close> returns has the members \<open>success\<close>, \<open>data\<close> and \<open>percentage\<close>;
  it has no member for awarded points. The tracker computes no points anywhere.
\<close>

theorem saveActivity_result_counterexample:
  "recorded scenario_activity scenario_world
   \<and> map fst (returned (saveActivity scenario_activity scenario_world))
       = [''success'', ''data'', ''percentage'']
   \<and> \<not> has_member (returned (saveActivity scenario_activity scenario_world)) ''pointsAwarded''
   \<and> \<not> has_member (returned (saveActivity scenario_activity scenario_world)) ''points''"
  using scenario_recorded scenario_returned by (simp add: has_member_def)

lemma recorded_returned:
  assumes "recorded a w"
  shows "\<exists>d. returned (saveActivity a w)
           = [(''success'', JBool True), (''data'', d),
              (''percentage'', JNum (of_int (saveActivity_percentage (present (act_moduleId a))
                                               (present (act_activityId a)) a)))]"
  using assms
  by (auto simp: recorded_iff returned_def saveActivity_result saveActivity_record_result)

text \<open>
  C3, amended. For every successful non-guest recording of an attempt, the result of
  \<open>saveActivity\<close> is \<open>{success: true, data, percentage}\<close>: it contains the computed
  percentage, and no awarded points.
\<close>

theorem saveActivity_result_members:
  "recorded a w \<longrightarrow>
      map fst (returned (saveActivity a w)) = [''success'', ''data'', ''percentage'']
      \<and> member (returned (saveActivity a w)) ''success'' = JBool True
      \<and> member (returned (saveActivity a w)) ''percentage''
          = JNum (of_int (saveActivity_percentage (present (act_moduleId a))
                            (present (act_activityId a)) a))
      \<and> \<not> has_member (returned (saveActivity a w)) ''pointsAwarded''
      \<and> \<not> has_member (returned (saveActivity a w)) ''points''"
proof (intro conjI impI)
  assume "recorded a w"
  from recorded_returned [OF this] obtain d where
    r: "returned (saveActivity a w)
           = [(''success'', JBool True), (''data'', d),
              (''percentage'', JNum (of_int (saveActivity_percentage (present (act_moduleId a))
                                               (present (act_activityId a)) a)))]" ..
  show "map fst (returned (saveActivity a w)) = [''success'', ''data'', ''percentage'']"
    by (simp add: r)
  show "member (returned (saveActivity a w)) ''success'' = JBool True"
    by (simp add: r member_def)
  show "member (returned (saveActivity a w)) ''percentage''
          = JNum (of_int (saveActivity_percentage (present (act_moduleId a))
                            (present (act_activityId a)) a))"
    by (simp add: r member_def)
  show "\<not> has_member (returned (saveActivity a w)) ''pointsAwarded''"
    by (simp add: r has_member_def)
  show "\<not> has_member (returned (saveActivity a w)) ''points''"
    by (simp add: r has_member_def)
qed

lemma scenario_percentage:
  "saveActivity_percentage ''dyslexia'' ''letter-match'' scenario_activity = 100"
  by code_simp

lemma scenario_fields:
  "present (act_moduleId scenario_activity) = ''dyslexia''"
  "present (act_activityId scenario_activity) = ''letter-match''"
  by (simp_all add: scenario_activity_def present_def)

text \<open>The scenario: 13 out of 13 is recorded, and the result carries 100 percent.\<close>

theorem saveActivity_result_members_witness:
  "recorded scenario_activity scenario_world
   \<and> member (returned (saveActivity scenario_activity scenario_world)) ''percentage'' = JNum 100
   \<and> \<not> has_member (returned (saveActivity scenario_activity scenario_world)) ''pointsAwarded''
   \<and> \<not> has_member (returned (saveActivity scenario_activity scenario_world)) ''points''"
proof -
  from saveActivity_result_members [of scenario_activity scenario_world]
       scenario_recorded scenario_percentage scenario_fields
  show ?thesis by simp
qed

subsection \<open>The completed flag\<close>

lemma saveActivity_record_env [simp]:
  "env_of (snd (saveActivity_record u m i a w)) = env_of w"
  by (simp add: saveActivity_record_def Let_def case_prod_beta checkAchievements_returns
      notifyDoctor_returns split: reply.splits option.splits)

lemma progressRecord_key: "list_all (\<lambda>c. c \<in> set (map fst (progressRecord u m i a now))) attempt_key"
  by (simp add: progressRecord_def attempt_key_def)

lemma progressRecord_completed:
  "member (progressRecord u m i a now) ''completed'' = JBool (50 \<le> saveActivity_percentage m i a)"
  by (simp add: progressRecord_def member_def)

lemma recorded_world:
  assumes "recorded a w"
  shows "\<exists>u. tracker (refresh_user w) = Some u
           \<and> tracker (snd (saveActivity a w)) = Some u
           \<and> supabase_loaded w
           \<and> snd (saveActivity a w)
               = snd (saveActivity_record u (present (act_moduleId a)) (present (act_activityId a)) a
                        (refresh_user w))
           \<and> tables (snd (saveActivity a w)) ''student_progress''
               = upsert_rows attempt_key
                   (progressRecord u (present (act_moduleId a)) (present (act_activityId a)) a (clock w))
                   (tables w ''student_progress'')"
proof -
  from assms obtain u where u: "tracker (refresh_user w) = Some u" "supabase_loaded w"
    "outcome_of w (Upsert ''student_progress''
        (progressRecord u (present (act_moduleId a)) (present (act_activityId a)) a (clock w))
        attempt_key) = Answers"
    and fields: "\<not> falsy_str (act_moduleId a)" "\<not> falsy_str (act_activityId a)"
    by (auto simp: recorded_iff)
  let ?w' = "snd (saveActivity_record u (present (act_moduleId a)) (present (act_activityId a)) a
                        (refresh_user w))"
  have w': "snd (saveActivity a w) = ?w'"
    using u fields by (simp add: saveActivity_world)
  have "tracker ?w' = tracker (refresh_user w)"
    by (rule env_ofD(1)) simp
  moreover have "tables ?w' ''student_progress''
               = upsert_rows attempt_key
                   (progressRecord u (present (act_moduleId a)) (present (act_activityId a)) a (clock w))
                   (tables w ''student_progress'')"
    using u by (simp add: saveActivity_record_table)
  ultimately show ?thesis using u w' by simp
qed

lemma boundary_percentages:
  "saveActivity_percentage ''dyslexia'' ''letter-match'' (attempt 49) = 49"
  "saveActivity_percentage ''dyslexia'' ''letter-match'' (attempt 50) = 50"
  by code_simp+

text \<open>
  C4. For every recorded attempt, a row is stored under the attempt's key (student,
  module, activity), and the \<open>completed\<close> column of every row under that key is true
  if and only if the computed percentage is at least 50; so is the \<open>completed\<close> member
  of the row \<open>saveActivity\<close> builds. At the boundary, 49 percent gives
  \<open>completed = false\<close> and 50 percent gives \<open>completed = true\<close>.
\<close>

theorem completed_flag_threshold:
  "(recorded a w \<longrightarrow>
      (\<exists>u. tracker (snd (saveActivity a w)) = Some u
         \<and> list_ex (same_key attempt_key
                      (progressRecord u (present (act_moduleId a)) (present (act_activityId a)) a (clock w)))
              (tables (snd (saveActivity a w)) ''student_progress'')
         \<and> list_all
              (\<lambda>r. same_key attempt_key
                      (progressRecord u (present (act_moduleId a)) (present (act_activityId a)) a (clock w)) r
                    \<longrightarrow> (member r ''completed'' = JBool True) =
                         (50 \<le> saveActivity_percentage (present (act_moduleId a))
                                  (present (act_activityId a)) a))
              (tables (snd (saveActivity a w)) ''student_progress'')))
   \<and> ((member (progressRecord u' moduleId activityId a now) ''completed'' = JBool True)
        = (50 \<le> saveActivity_percentage moduleId activityId a))
   \<and> saveActivity_percentage ''dyslexia'' ''letter-match'' (attempt 49) = 49
   \<and> member (progressRecord u' ''dyslexia'' ''letter-match'' (attempt 49) now) ''completed'' = JBool False
   \<and> saveActivity_percentage ''dyslexia'' ''letter-match'' (attempt 50) = 50
   \<and> member (progressRecord u' ''dyslexia'' ''letter-match'' (attempt 50) now) ''completed'' = JBool True"
proof (intro conjI impI)
  assume "recorded a w"
  from recorded_world [OF this] obtain u where
    u: "tracker (snd (saveActivity a w)) = Some u"
       "tables (snd (saveActivity a w)) ''student_progress''
               = upsert_rows attempt_key
                   (progressRecord u (present (act_moduleId a)) (present (act_activityId a)) a (clock w))
                   (tables w ''student_progress'')"
    by blast
  let ?rec = "progressRecord u (present (act_moduleId a)) (present (act_activityId a)) a (clock w)"
  have has: "list_ex (same_key attempt_key ?rec) (tables (snd (saveActivity a w)) ''student_progress'')"
    unfolding u(2) by (rule upsert_rows_has [OF progressRecord_key])
  have all: "list_all (\<lambda>r. same_key attempt_key ?rec r
                    \<longrightarrow> (member r ''completed'' = JBool True) =
                         (50 \<le> saveActivity_percentage (present (act_moduleId a))
                                  (present (act_activityId a)) a))
              (tables (snd (saveActivity a w)) ''student_progress'')"
    unfolding u(2) list_all_iff
  proof (intro ballI impI)
    fix r assume r: "r \<in> set (upsert_rows attempt_key ?rec (tables w ''student_progress''))"
      "same_key attempt_key ?rec r"
    have "member r ''completed'' = member ?rec ''completed''"
      by (rule upsert_rows_columns [OF progressRecord_key r]) (simp add: progressRecord_def)
    then show "(member r ''completed'' = JBool True) =
                  (50 \<le> saveActivity_percentage (present (act_moduleId a))
                           (present (act_activityId a)) a)"
      by (simp add: progressRecord_completed)
  qed
  from u(1) has all
  show "\<exists>u. tracker (snd (saveActivity a w)) = Some u
         \<and> list_ex (same_key attempt_key
                      (progressRecord u (present (act_moduleId a)) (present (act_activityId a)) a (clock w)))
              (tables (snd (saveActivity a w)) ''student_progress'')
         \<and> list_all
              (\<lambda>r. same_key attempt_key
                      (progressRecord u (present (act_moduleId a)) (present (act_activityId a)) a (clock w)) r
                    \<longrightarrow> (member r ''completed'' = JBool True) =
                         (50 \<le> saveActivity_percentage (present (act_moduleId a))
                                  (present (act_activityId a)) a))
              (tables (snd (saveActivity a w)) ''student_progress'')"
    by blast
next
  show "(member (progressRecord u' moduleId activityId a now) ''completed'' = JBool True)
        = (50 \<le> saveActivity_percentage moduleId activityId a)"
    by (simp add: progressRecord_completed)
next
  show p49: "saveActivity_percentage ''dyslexia'' ''letter-match'' (attempt 49) = 49"
    by (rule boundary_percentages)
  show p50: "saveActivity_percentage ''dyslexia'' ''letter-match'' (attempt 50) = 50"
    by (rule boundary_percentages)
  show "member (progressRecord u' ''dyslexia'' ''letter-match'' (attempt 49) now) ''completed'' = JBool False"
    by (simp add: progressRecord_completed p49)
  show "member (progressRecord u' ''dyslexia'' ''letter-match'' (attempt 50) now) ''completed'' = JBool True"
    by (simp add: progressRecord_completed p50)
qed

lemma attempts_recorded:
  "recorded (attempt 49) scenario_world" "recorded (attempt 50) scenario_world"
  "recorded (attempt 79) scenario_world" "recorded (attempt 80) scenario_world"
  by code_simp+

lemma attempts_stored:
  "map (\<lambda>r. member r ''completed'') (tables (snd (saveActivity (attempt 49) scenario_world)) ''student_progress'')
     = [JBool False]"
  "map (\<lambda>r. member r ''completed'') (tables (snd (saveActivity (attempt 50) scenario_world)) ''student_progress'')
     = [JBool True]"
  by code_simp+

text \<open>Attempts of 49 and of 50 out of 100 in the scenario: the stored flags.\<close>

theorem completed_flag_threshold_witness:
  "recorded (attempt 49) scenario_world
   \<and> map (\<lambda>r. member r ''completed'')
        (tables (snd (saveActivity (attempt 49) scenario_world)) ''student_progress'') = [JBool False]
   \<and> recorded (attempt 50) scenario_world
   \<and> map (\<lambda>r. member r ''completed'')
        (tables (snd (saveActivity (attempt 50) scenario_world)) ''student_progress'') = [JBool True]
   \<and> (\<exists>u. tracker (snd (saveActivity (attempt 50) scenario_world)) = Some u
         \<and> list_ex (same_key attempt_key
                      (progressRecord u ''dyslexia'' ''letter-match'' (attempt 50) (clock scenario_world)))
              (tables (snd (saveActivity (attempt 50) scenario_world)) ''student_progress''))"
proof -
  have flds: "present (act_moduleId (attempt 50)) = ''dyslexia''"
    "present (act_activityId (attempt 50)) = ''letter-match''"
    by (simp_all add: scenario_defs present_def)
  from completed_flag_threshold [of "attempt 50" scenario_world] attempts_recorded(2)
  have "\<exists>u. tracker (snd (saveActivity (attempt 50) scenario_world)) = Some u
         \<and> list_ex (same_key attempt_key
                      (progressRecord u ''dyslexia'' ''letter-match'' (attempt 50) (clock scenario_world)))
              (tables (snd (saveActivity (attempt 50) scenario_world)) ''student_progress'')"
    unfolding flds by blast
  with attempts_recorded attempts_stored show ?thesis by simp
qed

subsection \<open>Guest mode\<close>

text \<open>
  C6. For every attempt with the required \<open>moduleId\<close> and \<open>activityId\<close>, made while no
  identity is resolvable (none cached, none from \<open>getCurrentUser\<close>), \<open>saveActivity\<close>
  returns \<open>{success: true, guest: true}\<close>, leaves every table of the store as it was
  and sends it no write (no request at all unless a user is signed in), and shows the one
  local feedback toast.
\<close>

theorem guest_mode_no_write:
  assumes "\<not> falsy_str (act_moduleId a)" and "\<not> falsy_str (act_activityId a)"
    and "tracker w = None" and "fst (getCurrentUser w) = None"
  shows "fst (saveActivity a w) = Inr [(''success'', JBool True), (''guest'', JBool True)]
       \<and> tables (snd (saveActivity a w)) = tables w
       \<and> filter is_write (requests (snd (saveActivity a w))) = filter is_write (requests w)
       \<and> (\<not> signed_in w \<longrightarrow> requests (snd (saveActivity a w)) = requests w)
       \<and> toasts (snd (saveActivity a w))
           = toasts w @ [(''info'', ''Score saved locally! Log in to track your progress.'')]
       \<and> emails (snd (saveActivity a w)) = emails w"
proof -
  have guest: "tracker (refresh_user w) = None"
    using assms(3,4) by (simp add: refresh_user_tracker)
  have world: "snd (saveActivity a w) = showLocalFeedback (refresh_user w)"
    using assms(1,2) guest by (simp add: saveActivity_world)
  have res: "fst (saveActivity a w) = Inr [(''success'', JBool True), (''guest'', JBool True)]"
    using assms(1,2) guest by (simp add: saveActivity_result)
  have quiet: "\<not> signed_in w \<Longrightarrow> requests (refresh_user w) = requests w"
    by (simp add: refresh_user_world getCurrentUser_world signed_in_def split: auth_reply.splits)
  from res quiet show ?thesis
    unfolding world by simp
qed

text \<open>The scenario's attempt with nobody signed in.\<close>

theorem guest_mode_no_write_witness:
  "\<not> falsy_str (act_moduleId scenario_activity) \<and> \<not> falsy_str (act_activityId scenario_activity)
   \<and> tracker guest_world = None \<and> fst (getCurrentUser guest_world) = None
   \<and> fst (saveActivity scenario_activity guest_world)
       = Inr [(''success'', JBool True), (''guest'', JBool True)]
   \<and> tables (snd (saveActivity scenario_activity guest_world)) = tables guest_world
   \<and> requests (snd (saveActivity scenario_activity guest_world)) = []
   \<and> toasts (snd (saveActivity scenario_activity guest_world))
       = [(''info'', ''Score saved locally! Log in to track your progress.'')]"
proof -
  have hyps: "\<not> falsy_str (act_moduleId scenario_activity)"
    "\<not> falsy_str (act_activityId scenario_activity)"
    "tracker guest_world = None" "fst (getCurrentUser guest_world) = None"
    by (simp_all add: scenario_defs falsy_str_def getCurrentUser_user)
  have env: "\<not> signed_in guest_world" "requests guest_world = []" "toasts guest_world = []"
    by (simp_all add: scenario_defs signed_in_def)
  from guest_mode_no_write [OF hyps] hyps env show ?thesis by simp
qed

subsection \<open>The Notification Fan-out\<close>

lemma fanout_calls_sent [simp]:
  "fanout_calls (sent rq w) = fanout_calls w + (if is_link_lookup rq then 1 else 0)"
  by (simp add: fanout_calls_def)

lemma fanout_calls_requests: "requests w' = requests w \<Longrightarrow> fanout_calls w' = fanout_calls w"
  by (simp add: fanout_calls_def)

lemma fanout_calls_gw [simp]:
  "fanout_calls (snd (gw_insert t r w)) = fanout_calls w"
  "fanout_calls (snd (gw_upsert t r cols w)) = fanout_calls w"
  by (simp_all add: fanout_calls_def)

lemma fanout_calls_toast [simp]:
  "fanout_calls (showToast m ty w) = fanout_calls w"
  "fanout_calls (unlocked u a w) = fanout_calls w"
  "fanout_calls (showSuccessFeedback mi i p w) = fanout_calls w"
  "fanout_calls (showLocalFeedback w) = fanout_calls w"
  "fanout_calls (refresh_user w) = fanout_calls w"
  by (simp_all add: fanout_calls_def)

lemma fanout_calls_client [simp]:
  "fanout_calls (snd (client (gw_select t fs) w)) = fanout_calls w"
  "fanout_calls (snd (client (gw_insert t r) w)) = fanout_calls w"
  "fanout_calls (snd (client (gw_upsert t r cols) w)) = fanout_calls w"
  "fanout_calls (snd (client (gw_select_single t fs) w))
     = fanout_calls w + (if supabase_loaded w \<and> t = ''doctor_patients'' then 1 else 0)"
  by (simp_all add: client_world)

lemma fanout_calls_save_achievement [simp]:
  "fanout_calls (snd (save_achievement u p a w)) = fanout_calls w"
  by (simp add: save_achievement_def case_prod_beta split: reply.splits option.splits)

lemma fanout_calls_save_achievements [simp]:
  "fanout_calls (snd (save_achievements u p as w)) = fanout_calls w"
  by (induction as arbitrary: w) (simp_all add: case_prod_beta split: sum.splits)

lemma fanout_calls_checkAchievements [simp]:
  "fanout_calls (snd (checkAchievements m p w)) = fanout_calls w"
  by (simp add: checkAchievements_world checkAchievements_try_def case_prod_beta
      split: reply.splits option.splits)

lemma fanout_calls_logActivityHistory [simp]:
  "fanout_calls (snd (logActivityHistory m i a p w)) = fanout_calls w"
  by (simp add: logActivityHistory_def wrapper_logActivity_world split: auth_reply.splits)

lemma fanout_calls_notifyDoctor:
  "fanout_calls (snd (notifyDoctor m i a p w))
     = fanout_calls w + (if tracker w \<noteq> None \<and> supabase_loaded w then 1 else 0)"
  by (simp add: notifyDoctor_world notifyDoctor_try_def case_prod_beta
      split: reply.splits option.splits)

lemma fanout_calls_record:
  assumes "tracker w = Some u" and "supabase_loaded w"
    and "outcome_of w (Upsert ''student_progress'' (progressRecord u m i a (clock w)) attempt_key)
           = Answers"
  shows "fanout_calls (snd (saveActivity_record u m i a w))
           = fanout_calls w + (if 80 \<le> saveActivity_percentage m i a then 1 else 0)"
proof -
  let ?w1 = "snd (client (gw_upsert ''student_progress'' (progressRecord u m i a (clock w))
                      attempt_key) w)"
  let ?w2 = "snd (logActivityHistory m i a (saveActivity_percentage m i a) ?w1)"
  let ?w3 = "snd (checkAchievements m (saveActivity_percentage m i a) ?w2)"
  have env: "env_of ?w3 = env_of w" by simp
  have "tracker ?w3 = Some u" "supabase_loaded ?w3"
    using env_ofD(1) [OF env] env_ofD(4) [OF env] assms by simp_all
  then have "fanout_calls (snd (notifyDoctor m i a (saveActivity_percentage m i a) ?w3))
          = fanout_calls w + 1"
    by (simp add: fanout_calls_notifyDoctor)
  then show ?thesis
    using assms
    by (simp add: saveActivity_record_def Let_def case_prod_beta client_upsert_reply
        attempt_key_def [symmetric] checkAchievements_returns notifyDoctor_returns
        notifyDoctorThreshold_def)
qed

lemma fanout_calls_recorded:
  assumes "recorded a w"
  shows "fanout_calls (snd (saveActivity a w))
           = fanout_calls w
             + (if 80 \<le> saveActivity_percentage (present (act_moduleId a)) (present (act_activityId a)) a
                then 1 else 0)"
proof -
  from assms obtain u where u: "tracker (refresh_user w) = Some u" "supabase_loaded w"
    "outcome_of w (Upsert ''student_progress''
        (progressRecord u (present (act_moduleId a)) (present (act_activityId a)) a (clock w))
        attempt_key) = Answers"
    and fields: "\<not> falsy_str (act_moduleId a)" "\<not> falsy_str (act_activityId a)"
    by (auto simp: recorded_iff)
  from u fields show ?thesis
    using fanout_calls_record [of "refresh_user w" u "present (act_moduleId a)"
            "present (act_activityId a)" a]
    by (simp add: saveActivity_world)
qed


lemma writes_client [simp]:
  "filter is_write (requests (snd (client (gw_select_single t fs) w))) = filter is_write (requests w)"
  "filter is_write (requests (snd (client (gw_insert t r) w)))
     = filter is_write (requests w) @ (if supabase_loaded w then [Insert t r] else [])"
  by (simp_all add: client_world)

lemma client_single_reply:
  "fst (client (gw_select_single t fs) w)
     = (if \<not> supabase_loaded w then Rejected ''CognoSupabase is not defined''
        else case outcome_of w (SelectSingle t fs) of
               Answers \<Rightarrow> single_row (filter (matches fs) (tables w t))
             | ErrorResult e \<Rightarrow> Reply None (Some e)
             | Throws e \<Rightarrow> Rejected e)"
  by (simp add: client_def gw_select_single_def split: outcome.splits)

lemma client_insert_table:
  "tables (snd (client (gw_insert t r) w)) t
     = (if supabase_loaded w \<and> outcome_of w (Insert t r) = Answers then tables w t @ [r]
        else tables w t)"
  by (simp add: client_world gw_insert_table)

lemma notifyDoctor_no_link:
  assumes "tracker w = Some u"
    and "filter (matches (active_link_of u)) (tables w ''doctor_patients'') = []"
  shows "tables (snd (notifyDoctor m i a p w)) = tables w"
    and "filter is_write (requests (snd (notifyDoctor m i a p w))) = filter is_write (requests w)"
  using assms
  by (simp_all add: notifyDoctor_world notifyDoctor_try_def case_prod_beta client_single_reply
      single_row_def active_link_of_def split: outcome.splits)

lemma notifyDoctor_one_link:
  assumes "tracker w = Some u" and "supabase_loaded w"
    and "outcome_of w (SelectSingle ''doctor_patients'' (active_link_of u)) = Answers"
    and "filter (matches (active_link_of u)) (tables w ''doctor_patients'') = [link]"
    and "truthy (member link ''doctor_id'')"
  shows "filter is_write (requests (snd (notifyDoctor m i a p w)))
           = filter is_write (requests w)
             @ [Insert ''notifications'' (notification u (member link ''doctor_id'') m i a p (clock w))]"
    and "tables (snd (notifyDoctor m i a p w)) ''notifications''
           = (if outcome_of w (Insert ''notifications''
                   (notification u (member link ''doctor_id'') m i a p (clock w))) = Answers
              then tables w ''notifications''
                   @ [notification u (member link ''doctor_id'') m i a p (clock w)]
              else tables w ''notifications'')"
proof -
  let ?w1 = "snd (client (gw_select_single ''doctor_patients'' (active_link_of u)) w)"
  have env: "env_of ?w1 = env_of w" by simp
  note same = env_ofD [OF env]
  have reply: "fst (client (gw_select_single ''doctor_patients'' (active_link_of u)) w)
                 = Reply (Some link) None"
    using assms by (simp add: client_single_reply single_row_def)
  show "filter is_write (requests (snd (notifyDoctor m i a p w)))
           = filter is_write (requests w)
             @ [Insert ''notifications'' (notification u (member link ''doctor_id'') m i a p (clock w))]"
    using assms reply same
    by (simp add: notifyDoctor_world notifyDoctor_try_def case_prod_beta
        active_link_of_def [symmetric] split: reply.splits)
  show "tables (snd (notifyDoctor m i a p w)) ''notifications''
           = (if outcome_of w (Insert ''notifications''
                   (notification u (member link ''doctor_id'') m i a p (clock w))) = Answers
              then tables w ''notifications''
                   @ [notification u (member link ''doctor_id'') m i a p (clock w)]
              else tables w ''notifications'')"
    using assms reply same
    by (simp add: notifyDoctor_world notifyDoctor_try_def case_prod_beta client_insert_table
        active_link_of_def [symmetric] split: reply.splits)
qed

lemma notification_members:
  "member (notification u d m i a p now) ''user_id'' = d"
  "member (notification u d m i a p now) ''type'' = JStr (if 90 \<le> p then ''achievement'' else ''info'')"
  by (simp_all add: notification_def member_def)

text \<open>
  The threshold and the two cases the lookup resolves. A recorded attempt invokes the
  fan-out (one lookup of the supervising doctor) exactly when the percentage is at least
  80. When invoked, the fan-out changes no table and sends no write if the student has no
  active link. If exactly one active link matches, with a doctor id, and the store
  answers the lookup, the fan-out sends one insert of a notification row addressed to that
  doctor, of type \<open>achievement\<close> when the percentage is at least 90 and \<open>info\<close>
  otherwise, and the row is stored when the store answers the insert. It never throws to
  its caller.
\<close>

lemma fanout_threshold:
  "(recorded a w \<longrightarrow>
      fanout_calls (snd (saveActivity a w))
        = fanout_calls w
          + (if 80 \<le> saveActivity_percentage (present (act_moduleId a)) (present (act_activityId a)) a
             then 1 else 0))
   \<and> (tracker w = Some u
        \<and> filter (matches (active_link_of u)) (tables w ''doctor_patients'') = [] \<longrightarrow>
      tables (snd (notifyDoctor moduleId activityId a percentage w)) = tables w
      \<and> filter is_write (requests (snd (notifyDoctor moduleId activityId a percentage w)))
          = filter is_write (requests w))
   \<and> (tracker w = Some u \<and> supabase_loaded w
        \<and> outcome_of w (SelectSingle ''doctor_patients'' (active_link_of u)) = Answers
        \<and> filter (matches (active_link_of u)) (tables w ''doctor_patients'') = [link]
        \<and> truthy (member link ''doctor_id'') \<longrightarrow>
      filter is_write (requests (snd (notifyDoctor moduleId activityId a percentage w)))
        = filter is_write (requests w)
          @ [Insert ''notifications''
               (notification u (member link ''doctor_id'') moduleId activityId a percentage (clock w))]
      \<and> member (notification u (member link ''doctor_id'') moduleId activityId a percentage (clock w))
           ''user_id'' = member link ''doctor_id''
      \<and> member (notification u (member link ''doctor_id'') moduleId activityId a percentage (clock w))
           ''type'' = JStr (if 90 \<le> percentage then ''achievement'' else ''info'')
      \<and> tables (snd (notifyDoctor moduleId activityId a percentage w)) ''notifications''
          = (if outcome_of w (Insert ''notifications''
                  (notification u (member link ''doctor_id'') moduleId activityId a percentage (clock w)))
                = Answers
             then tables w ''notifications''
                  @ [notification u (member link ''doctor_id'') moduleId activityId a percentage (clock w)]
             else tables w ''notifications''))
   \<and> fst (notifyDoctor moduleId activityId a percentage w) = Inr ()"
  using fanout_calls_recorded [of a w]
    notifyDoctor_no_link [of w u moduleId activityId a percentage]
    notifyDoctor_one_link [of w u link moduleId activityId a percentage]
    notification_members [of u "member link ''doctor_id''" moduleId activityId a percentage "clock w"]
    notifyDoctor_returns [of moduleId activityId a percentage w]
  by simp


lemma two_doctors_run:
  "recorded scenario_activity two_doctors_world"
  "length (filter (matches (active_link_of alice)) (tables two_doctors_world ''doctor_patients'')) = 2"
  "fanout_calls (snd (saveActivity scenario_activity two_doctors_world)) = 1"
  "tables (snd (saveActivity scenario_activity two_doctors_world)) ''notifications'' = []"
  by code_simp+

text \<open>
  C5. The claim has the fan-out insert one notification row, addressed to the linked
  doctor, whenever the student has an active link. A student whom two doctors have added
  as a patient (the doctor portal checks only its own pair before it inserts the link) has
  two active links. There the attempt at 100 percent is recorded and the fan-out is
  invoked once, but its lookup ends in \<open>.single()\<close>, which resolves a row only when
  exactly one matches: the code takes the student as having no doctor, and no notification
  is stored for either of them.
\<close>

theorem notifyDoctor_two_links:
  "recorded scenario_activity two_doctors_world
   \<and> saveActivity_percentage ''dyslexia'' ''letter-match'' scenario_activity = 100
   \<and> length (filter (matches (active_link_of alice)) (tables two_doctors_world ''doctor_patients'')) = 2
   \<and> fanout_calls (snd (saveActivity scenario_activity two_doctors_world)) = 1
   \<and> tables (snd (saveActivity scenario_activity two_doctors_world)) ''notifications'' = []"
  using two_doctors_run scenario_percentage by simp

lemma threshold_percentages:
  "saveActivity_percentage ''dyslexia'' ''letter-match'' (attempt 79) = 79"
  "saveActivity_percentage ''dyslexia'' ''letter-match'' (attempt 80) = 80"
  by code_simp+

lemma threshold_runs:
  "fanout_calls scenario_world = 0"
  "present (act_moduleId (attempt s)) = ''dyslexia''"
  "present (act_activityId (attempt s)) = ''letter-match''"
  by (simp_all add: fanout_calls_def scenario_defs present_def)

lemma cached_link:
  "tracker cached_world = Some alice" "supabase_loaded cached_world"
  "outcome_of cached_world (SelectSingle ''doctor_patients'' (active_link_of alice)) = Answers"
  "filter (matches (active_link_of alice)) (tables cached_world ''doctor_patients'')
     = [[(''doctor_id'', JStr ''d1''), (''patient_id'', JStr ''u1''), (''status'', JStr ''active'')]]"
  "truthy (member [(''doctor_id'', JStr ''d1''), (''patient_id'', JStr ''u1''),
                   (''status'', JStr ''active'')] ''doctor_id'')"
  "member [(''doctor_id'', JStr ''d1''), (''patient_id'', JStr ''u1''),
           (''status'', JStr ''active'')] ''doctor_id'' = JStr ''d1''"
  "tables cached_world ''notifications'' = []"
  "tracker no_doctor_world = Some alice"
  "filter (matches (active_link_of alice)) (tables no_doctor_world ''doctor_patients'') = []"
  by (simp_all add: scenario_defs active_link_of_def matches_def member_def truthy_def)

text \<open>Attempts at 79 and 80 percent, a student without a doctor, a student with one.\<close>

lemma fanout_threshold_runs:
  "recorded (attempt 79) scenario_world
   \<and> fanout_calls (snd (saveActivity (attempt 79) scenario_world)) = 0
   \<and> recorded (attempt 80) scenario_world
   \<and> fanout_calls (snd (saveActivity (attempt 80) scenario_world)) = 1
   \<and> tracker no_doctor_world = Some alice
   \<and> filter (matches (active_link_of alice)) (tables no_doctor_world ''doctor_patients'') = []
   \<and> tables (snd (notifyDoctor ''dyslexia'' ''letter-match'' (attempt 80) 80 no_doctor_world))
       = tables no_doctor_world
   \<and> tracker cached_world = Some alice \<and> supabase_loaded cached_world
   \<and> outcome_of cached_world (SelectSingle ''doctor_patients'' (active_link_of alice)) = Answers
   \<and> filter (matches (active_link_of alice)) (tables cached_world ''doctor_patients'')
       = [[(''doctor_id'', JStr ''d1''), (''patient_id'', JStr ''u1''), (''status'', JStr ''active'')]]
   \<and> tables (snd (notifyDoctor ''dyslexia'' ''letter-match'' (attempt 80) 80 cached_world))
        ''notifications''
       = [notification alice (JStr ''d1'') ''dyslexia'' ''letter-match'' (attempt 80) 80
            (clock cached_world)]
   \<and> member (notification alice (JStr ''d1'') ''dyslexia'' ''letter-match'' (attempt 80) 80
                (clock cached_world)) ''type'' = JStr ''info''
   \<and> member (notification alice (JStr ''d1'') ''dyslexia'' ''letter-match'' scenario_activity 100
                (clock cached_world)) ''type'' = JStr ''achievement''
   \<and> fst (notifyDoctor ''dyslexia'' ''letter-match'' (attempt 80) 80 cached_world) = Inr ()"
proof -
  have answers: "outcome_of cached_world
                   (Insert ''notifications''
                      (notification alice (JStr ''d1'') ''dyslexia'' ''letter-match'' (attempt 80) 80
                         (clock cached_world))) = Answers"
    by (simp add: scenario_defs)
  from fanout_threshold [where a = "attempt 79" and w = scenario_world]
       fanout_threshold [where a = "attempt 80" and w = scenario_world]
       fanout_threshold [where a = "attempt 80" and w = no_doctor_world and u = alice
         and moduleId = "''dyslexia''" and activityId = "''letter-match''" and percentage = 80]
       fanout_threshold [where a = "attempt 80" and w = cached_world and u = alice
         and moduleId = "''dyslexia''" and activityId = "''letter-match''" and percentage = 80
         and link = "[(''doctor_id'', JStr ''d1''), (''patient_id'', JStr ''u1''),
                      (''status'', JStr ''active'')]"]
       fanout_threshold [where a = scenario_activity and w = cached_world and u = alice
         and moduleId = "''dyslexia''" and activityId = "''letter-match''" and percentage = 100
         and link = "[(''doctor_id'', JStr ''d1''), (''patient_id'', JStr ''u1''),
                      (''status'', JStr ''active'')]"]
       attempts_recorded threshold_runs threshold_percentages cached_link answers
  show ?thesis by simp
qed

subsection \<open>The modules path\<close>



subsection \<open>The percentage of the modules path\<close>










subsection \<open>The two merge policies\<close>



subsection \<open>Table subscriptions and the registry\<close>

lemma channel_unsubscribe_frame [simp]:
  "registry (channel_unsubscribe h s) = registry s"
  "length (provider (channel_unsubscribe h s)) = length (provider s)"
  "manager_client (channel_unsubscribe h s) = manager_client s"
  by (simp_all add: channel_unsubscribe_def)

lemma channel_unsubscribe_twice [simp]:
  "channel_unsubscribe h (channel_unsubscribe h s) = channel_unsubscribe h s"
  by (simp add: channel_unsubscribe_def)

lemma channel_unsubscribe_closes:
  "h < length (provider s) \<Longrightarrow> \<not> subscribed (provider (channel_unsubscribe h s) ! h)"
  by (simp add: channel_unsubscribe_def)

lemma TableSubscriptions_subscribe_unsub:
  "fst (TableSubscriptions_subscribe t options s)
     = (if client_now s then channel_unsubscribe (length (provider s)) else (\<lambda>s'. s'))"
  by (simp add: TableSubscriptions_subscribe_def provider_channel_def)

lemma TableSubscriptions_subscribe_state:
  "registry (snd (TableSubscriptions_subscribe t options s)) = registry s"
  "client_now s \<Longrightarrow>
     provider (snd (TableSubscriptions_subscribe t options s))
       = provider s @ [\<lparr>topic = table_channel_name t s,
                         bindings = [(or_str (opt_event options) ''*'', t, opt_filter options)],
                         subscribed = True\<rparr>]"
  "\<not> client_now s \<Longrightarrow> snd (TableSubscriptions_subscribe t options s) = s"
  by (simp_all add: TableSubscriptions_subscribe_def provider_channel_def channel_on_def
      channel_subscribe_def)

lemma map_of_filter_out: "map_of (filter (\<lambda>(n, c). n \<noteq> k) xs) k = None"
  by (induction xs) auto

lemma RealtimeManager_unsubscribe_removes:
  "RealtimeManager_getChannel n (RealtimeManager_unsubscribe n s) = None"
  by (simp add: RealtimeManager_unsubscribe_def RealtimeManager_getChannel_def Let_def
      map_of_filter_out split: option.splits)

lemma RealtimeManager_unsubscribe_twice:
  "RealtimeManager_unsubscribe n (RealtimeManager_unsubscribe n s) = RealtimeManager_unsubscribe n s"
proof -
  have "map_of (registry (RealtimeManager_unsubscribe n s)) n = None"
    using RealtimeManager_unsubscribe_removes [of n s] by (simp add: RealtimeManager_getChannel_def)
  then show ?thesis
    by (simp add: RealtimeManager_unsubscribe_def [of n "RealtimeManager_unsubscribe n s"])
qed

text \<open>
  C8, amended. A table-change subscription opens its channel at the provider and never
  enters it in the registry: subscribing leaves the registry as it was; the returned
  function, whenever it is called, leaves the registry as it was, and a second call
  changes nothing more; called after subscribing, it leaves the channel unsubscribed.
  Without a client the subscription changes nothing and the returned function does
  nothing. A channel of the registry is removed by \<open>RealtimeManager.unsubscribe\<close>, and a
  second call of that changes nothing more.
\<close>

theorem table_unsubscribe_bypasses_registry:
  "registry (snd (TableSubscriptions_subscribe t options s)) = registry s
   \<and> registry (fst (TableSubscriptions_subscribe t options s) s2) = registry s2
   \<and> fst (TableSubscriptions_subscribe t options s)
        (fst (TableSubscriptions_subscribe t options s) s2)
       = fst (TableSubscriptions_subscribe t options s) s2
   \<and> (client_now s \<longrightarrow>
        provider (snd (TableSubscriptions_subscribe t options s))
          = provider s @ [\<lparr>topic = table_channel_name t s,
                            bindings = [(or_str (opt_event options) ''*'', t, opt_filter options)],
                            subscribed = True\<rparr>]
        \<and> \<not> subscribed
             (provider (fst (TableSubscriptions_subscribe t options s)
                          (snd (TableSubscriptions_subscribe t options s)))
              ! length (provider s)))
   \<and> (\<not> client_now s \<longrightarrow>
        snd (TableSubscriptions_subscribe t options s) = s
        \<and> fst (TableSubscriptions_subscribe t options s) s2 = s2)
   \<and> RealtimeManager_getChannel n (RealtimeManager_unsubscribe n s) = None
   \<and> RealtimeManager_unsubscribe n (RealtimeManager_unsubscribe n s)
       = RealtimeManager_unsubscribe n s"
  by (simp add: TableSubscriptions_subscribe_unsub TableSubscriptions_subscribe_state
      channel_unsubscribe_closes RealtimeManager_unsubscribe_removes
      RealtimeManager_unsubscribe_twice)

lemma fresh_subscription:
  "client_now fresh_page"
  "map topic (provider (snd (TableSubscriptions_subscribe ''progress'' any_change fresh_page)))
     = [''table:progress:5'']"
  "map subscribed (provider (snd (TableSubscriptions_subscribe ''progress'' any_change fresh_page)))
     = [True]"
  "RealtimeManager_getChannel ''table:progress:5''
     (snd (TableSubscriptions_subscribe ''progress'' any_change fresh_page)) = None"
  "registry (snd (TableSubscriptions_subscribe ''progress'' any_change fresh_page)) = []"
  "registry (fst (TableSubscriptions_subscribe ''progress'' any_change fresh_page)
               (snd (TableSubscriptions_subscribe ''progress'' any_change fresh_page))) = []"
  "map subscribed
     (provider (fst (TableSubscriptions_subscribe ''progress'' any_change fresh_page)
                  (snd (TableSubscriptions_subscribe ''progress'' any_change fresh_page))))
     = [False]"
  "map subscribed
     (provider (RealtimeManager_unsubscribeAll
                  (snd (TableSubscriptions_subscribe ''progress'' any_change fresh_page))))
     = [True]"
  by code_simp+

text \<open>
  C8, as stated, fails: after a table-change subscription on a fresh page the channel is
  subscribed at the provider and the registry is empty, so the returned function has
  nothing to remove from the registry, and the sweep of the registry on unload does not
  close the channel.
\<close>

theorem table_unsubscribe_counterexample:
  "client_now fresh_page
   \<and> map topic (provider (snd (TableSubscriptions_subscribe ''progress'' any_change fresh_page)))
       = [''table:progress:5'']
   \<and> map subscribed (provider (snd (TableSubscriptions_subscribe ''progress'' any_change fresh_page)))
       = [True]
   \<and> RealtimeManager_getChannel ''table:progress:5''
        (snd (TableSubscriptions_subscribe ''progress'' any_change fresh_page)) = None
   \<and> registry (snd (TableSubscriptions_subscribe ''progress'' any_change fresh_page)) = []
   \<and> registry (fst (TableSubscriptions_subscribe ''progress'' any_change fresh_page)
                  (snd (TableSubscriptions_subscribe ''progress'' any_change fresh_page))) = []
   \<and> map subscribed
        (provider (RealtimeManager_unsubscribeAll
                     (snd (TableSubscriptions_subscribe ''progress'' any_change fresh_page))))
       = [True]"
  using fresh_subscription by simp

text \<open>The subscription to \<open>progress\<close> on the fresh page.\<close>

theorem table_unsubscribe_bypasses_registry_witness:
  "client_now fresh_page
   \<and> registry (snd (TableSubscriptions_subscribe ''progress'' any_change fresh_page))
       = registry fresh_page
   \<and> provider (snd (TableSubscriptions_subscribe ''progress'' any_change fresh_page))
       = [\<lparr>topic = ''table:progress:5'', bindings = [(''*'', ''progress'', None)],
           subscribed = True\<rparr>]
   \<and> \<not> subscribed
         (provider (fst (TableSubscriptions_subscribe ''progress'' any_change fresh_page)
                      (snd (TableSubscriptions_subscribe ''progress'' any_change fresh_page)))
          ! 0)
   \<and> fst (TableSubscriptions_subscribe ''progress'' any_change fresh_page)
        (fst (TableSubscriptions_subscribe ''progress'' any_change fresh_page)
           (snd (TableSubscriptions_subscribe ''progress'' any_change fresh_page)))
       = fst (TableSubscriptions_subscribe ''progress'' any_change fresh_page)
           (snd (TableSubscriptions_subscribe ''progress'' any_change fresh_page))"
proof -
  have name: "table_channel_name ''progress'' fresh_page = ''table:progress:5''"
    by code_simp
  have page: "client_now fresh_page" "provider fresh_page = []"
    "or_str (opt_event any_change) ''*'' = ''*''" "opt_filter any_change = None"
    by (simp_all add: fresh_page_def any_change_def or_str_def)
  from table_unsubscribe_bypasses_registry
         [where t = "''progress''" and options = any_change and s = fresh_page
            and ?s2.0 = "snd (TableSubscriptions_subscribe ''progress'' any_change fresh_page)"]
       name page
  show ?thesis by simp
qed

subsection \<open>Achievements and the existence check\<close>

lemma held_frame [simp]:
  "held uid aid (sent rq w) = held uid aid w"
  "held uid aid (unlocked u a w) = held uid aid w"
  "held uid aid (showToast m ty w) = held uid aid w"
  "held uid aid (snd (client (gw_select t fs) w)) = held uid aid w"
  "held uid aid (snd (client (gw_select_single t fs) w)) = held uid aid w"
  by (simp_all add: held_def)

lemma achievement_row_matches:
  "matches (award_of uid aid) (achievement_row u a p now) = (uid = u_id u \<and> aid = ach_id a)"
  by (auto simp: matches_def award_of_def achievement_row_def member_def)

lemma checks_answered_env: "env_of w' = env_of w \<Longrightarrow> checks_answered w' = checks_answered w"
  by (simp add: checks_answered_def env_of_def)

lemma client_insert_reply:
  "fst (client (gw_insert t r) w)
     = (if \<not> supabase_loaded w then Rejected ''CognoSupabase is not defined''
        else case outcome_of w (Insert t r) of
               Answers \<Rightarrow> Reply (Some [r]) None
             | ErrorResult e \<Rightarrow> Reply None (Some e)
             | Throws e \<Rightarrow> Rejected e)"
  by (simp add: client_def gw_insert_def split: outcome.splits)

lemma single_row_cases:
  "single_row rs = (if length rs = 1 then Reply (Some (hd rs)) None
                    else Reply None (Some ''JSON object requested, multiple (or no) rows returned''))"
  by (cases rs; cases "tl rs") (simp_all add: single_row_def)

text \<open>The body of the loop, by the three notions.\<close>

lemma save_achievement_reply:
  "(\<exists>e. fst (save_achievement u p a w) = Inl e) = leaves_loop u p a w"
  "(fst (save_achievement u p a w) = Inr ()) = (\<not> leaves_loop u p a w)"
  by (auto simp: save_achievement_def case_prod_beta client_single_reply client_insert_reply
      single_row_cases leaves_loop_def lookup_missing_def throws_def held_def
      award_of_def [symmetric] env_ofD [OF client_frame(5)]
      split: outcome.splits)

lemma save_achievement_table:
  "tables (snd (save_achievement u p a w)) ''user_achievements''
     = (if adds_row u p a w
        then tables w ''user_achievements'' @ [achievement_row u a p (clock w)]
        else tables w ''user_achievements'')"
  by (auto simp: save_achievement_def case_prod_beta client_single_reply client_insert_reply
      client_insert_table
      single_row_cases adds_row_def lookup_missing_def throws_def held_def
      award_of_def [symmetric] env_ofD [OF client_frame(5)]
      split: outcome.splits)

lemma save_achievements_Cons:
  "snd (save_achievements u p (a # rest) w)
     = (if leaves_loop u p a w then snd (save_achievement u p a w)
        else snd (save_achievements u p rest (snd (save_achievement u p a w))))"
proof (cases "leaves_loop u p a w")
  case True
  then obtain e where "fst (save_achievement u p a w) = Inl e"
    using save_achievement_reply(1) [of u p a w] by blast
  with True show ?thesis by (simp add: case_prod_beta)
next
  case False
  then have "fst (save_achievement u p a w) = Inr ()"
    by (simp add: save_achievement_reply(2))
  with False show ?thesis by (simp add: case_prod_beta)
qed

lemma held_save_achievement:
  "held uid aid (snd (save_achievement u p a w))
     = held uid aid w + (if adds_row u p a w \<and> uid = u_id u \<and> aid = ach_id a then 1 else 0)"
  by (simp add: held_def save_achievement_table achievement_row_matches)

lemma adds_row_held:
  assumes "checks_answered w" and "adds_row u p a w"
  shows "held (u_id u) (ach_id a) w \<noteq> 1"
proof -
  let ?rq = "SelectSingle ''user_achievements'' (award_of (u_id u) (ach_id a))"
  from assms(1) have no: "\<And>e. outcome_of w ?rq \<noteq> ErrorResult e"
    unfolding checks_answered_def by blast
  from assms(2) have lm: "lookup_missing u a w" unfolding adds_row_def by blast
  show ?thesis
  proof (cases "outcome_of w ?rq")
    case Answers
    with lm show ?thesis unfolding lookup_missing_def by simp
  next
    case (ErrorResult e)
    with no show ?thesis by blast
  next
    case (Throws e)
    with lm show ?thesis unfolding lookup_missing_def by simp
  qed
qed

text \<open>The invariant, for one user and achievement id, through the body and the loop.\<close>

lemma held_once_body:
  assumes "checks_answered w" and "held uid aid w \<le> 1"
  shows "held uid aid (snd (save_achievement u p a w)) \<le> 1"
proof (cases "adds_row u p a w \<and> uid = u_id u \<and> aid = ach_id a")
  case True
  then have "held uid aid w \<noteq> 1" using adds_row_held [OF assms(1), of u p a] by blast
  with assms(2) have "held uid aid w = 0" by arith
  then show ?thesis unfolding held_save_achievement by simp
next
  case False
  then have "held uid aid (snd (save_achievement u p a w)) = held uid aid w"
    unfolding held_save_achievement by simp
  with assms(2) show ?thesis by simp
qed

lemma held_once_loop:
  assumes "checks_answered w" and "held uid aid w \<le> 1"
  shows "held uid aid (snd (save_achievements u p as w)) \<le> 1"
  using assms
proof (induction as arbitrary: w)
  case Nil
  then show ?case by simp
next
  case (Cons a as)
  let ?w = "snd (save_achievement u p a w)"
  have c: "checks_answered ?w"
    using Cons.prems(1) checks_answered_env [of ?w w] by simp
  have b: "held uid aid ?w \<le> 1"
    using Cons.prems by (rule held_once_body)
  have "held uid aid (snd (save_achievements u p as ?w)) \<le> 1"
    using c b by (rule Cons.IH)
  with b show ?case unfolding save_achievements_Cons by simp
qed

text \<open>With answered existence checks, an evaluation leaves at most one row for a user and
  an achievement id that had at most one.\<close>

lemma checkAchievements_held_once:
  assumes "checks_answered w" and "held uid aid w \<le> 1"
  shows "held uid aid (snd (checkAchievements m p w)) \<le> 1"
proof (cases "tracker w")
  case None
  with assms(2) show ?thesis
    by (simp add: checkAchievements_world checkAchievements_try_def)
next
  case (Some u)
  let ?s1 = "client (gw_select ''student_progress'' [(''student_id'', JStr (u_id u))])"
  let ?s2 = "client (gw_select ''student_progress''
                       [(''student_id'', JStr (u_id u)), (''module_type'', JStr m),
                        (''completed'', JBool True)])"
  let ?w1 = "snd (?s1 w)"
  let ?w2 = "snd (?s2 ?w1)"
  have h1: "held uid aid ?w1 \<le> 1" and h2: "held uid aid ?w2 \<le> 1"
    using assms(2) by simp_all
  have "checks_answered ?w2"
    using assms(1) checks_answered_env [of ?w2 w] by simp
  then have loop: "held uid aid (snd (save_achievements u p as ?w2)) \<le> 1" for as
    using h2 by (rule held_once_loop)
  show ?thesis
    unfolding checkAchievements_world checkAchievements_try_def
    using Some h1 h2 loop by (simp add: case_prod_beta split: reply.splits)
qed

lemma awarded_once_kept:
  assumes "checks_answered w" and "awarded_once w"
  shows "awarded_once (snd (checkAchievements m p w))"
  unfolding awarded_once_def
proof (intro allI)
  fix uid aid
  from assms(2) have "held uid aid w \<le> 1" unfolding awarded_once_def by blast
  with assms(1) show "held uid aid (snd (checkAchievements m p w)) \<le> 1"
    by (rule checkAchievements_held_once)
qed

lemma unanswered_run:
  "tracker unanswered_world = Some alice"
  "held ''u1'' ''first_activity'' unanswered_world = 1"
  "outcome_of unanswered_world
     (SelectSingle ''user_achievements'' (award_of ''u1'' ''first_activity''))
     = ErrorResult ''Failed to fetch''"
  "held ''u1'' ''first_activity'' (snd (checkAchievements ''dyslexia'' 60 unanswered_world)) = 2"
  by code_simp+

text \<open>
  C7. The claim has an evaluation insert no second record for a user and an achievement
  id that have one. The student holds First Steps and has one attempt on record; the
  store fails the existence check of the evaluation with an error reply, and answers the
  insert. \<open>checkAchievements\<close> reads only \<open>data\<close> of the reply to the check, takes
  the achievement as not yet earned, and inserts: the student has two rows of First Steps.
\<close>

theorem checkAchievements_lookup_error:
  "tracker unanswered_world = Some alice
   \<and> held ''u1'' ''first_activity'' unanswered_world = 1
   \<and> outcome_of unanswered_world
        (SelectSingle ''user_achievements'' (award_of ''u1'' ''first_activity''))
       = ErrorResult ''Failed to fetch''
   \<and> held ''u1'' ''first_activity''
         (snd (checkAchievements ''dyslexia'' 60 unanswered_world)) = 2"
  by (simp add: unanswered_run)

end
